theory Spec2Isabelle
  imports Complex_Main
begin

unbundle bit_operations_syntax

section \<open>Arrays\<close>

text \<open>
  The simulator computes with NumPy arrays of complex numbers. Every array of the program
  is either 2-D (the kets \<open>zero\<close> and \<open>one\<close> are 2x1 columns, the gates are square) or
  1-D (what \<open>flatten\<close> returns inside \<open>measure_two_qubits\<close>). A 2-D array is the list of
  its rows. The rank of an array is static at every place of the source but one: the
  global \<open>state\<close> is 2-D after \<open>initialize\<close> and \<open>alice_ops\<close> and 1-D after \<open>measure\<close>,
  so the session stores an \<open>ndarray\<close> that carries its rank.

  Amplitudes are exact complex numbers and norms exact reals: the theory states what the
  program computes in exact arithmetic, and says nothing about rounding, \<open>inf\<close> or \<open>nan\<close>
  of IEEE doubles. The one place where the source produces \<open>nan\<close> from a division of zero
  by zero and then fails on it is modelled as that failure (see \<open>measure_two_qubits\<close>).
\<close>

type_synonym vector = "complex list"
type_synonym matrix = "complex list list"

datatype ndarray = Vec vector | Mat matrix

datatype error = IndexError | ValueError

text \<open>\<open>state.flatten()\<close>: the elements in row-major order, as a 1-D array.\<close>

fun flatten :: "ndarray \<Rightarrow> vector" where
  "flatten (Vec v) = v"
| "flatten (Mat m) = concat m"

text \<open>
  \<open>np.linalg.norm\<close> with no further argument: the 2-norm of a 1-D array and the
  Frobenius norm of a 2-D array, in both cases the square root of the sum of the squared
  moduli of all elements.
\<close>

definition linalg_norm :: "vector \<Rightarrow> real" where
  "linalg_norm v = sqrt (\<Sum>z\<leftarrow>v. (cmod z)\<^sup>2)"

text \<open>
  \<open>normalize\<close> (source lines 10 to 12). The source applies it to 2-D arrays (\<open>psi\<close>, the
  Bell pair, Bob's qubit) and to a 1-D array (the collapsed state); \<open>normalize_2d\<close> is
  the function at rank 2 and \<open>normalize_1d\<close> the same function at rank 1.
\<close>

definition normalize_2d :: "matrix \<Rightarrow> matrix" where
  "normalize_2d state =
     (let norm = linalg_norm (concat state)
      in if norm \<noteq> 0 then map (map (\<lambda>z. z / complex_of_real norm)) state else state)"

definition normalize_1d :: "vector \<Rightarrow> vector" where
  "normalize_1d state =
     (let norm = linalg_norm state
      in if norm \<noteq> 0 then map (\<lambda>z. z / complex_of_real norm) state else state)"

text \<open>
  \<open>np.kron\<close> of two 2-D arrays: the block matrix whose block (i, j) is \<open>a[i][j] * b\<close>.
  Row \<open>i * rows(b) + k\<close> of the result is the Kronecker product of row \<open>i\<close> of \<open>a\<close> and
  row \<open>k\<close> of \<open>b\<close>.
\<close>

definition kron_row :: "vector \<Rightarrow> vector \<Rightarrow> vector" where
  "kron_row ra rb = concat (map (\<lambda>x. map (\<lambda>y. x * y) rb) ra)"

definition np_kron :: "matrix \<Rightarrow> matrix \<Rightarrow> matrix" where
  "np_kron a b = concat (map (\<lambda>ra. map (\<lambda>rb. kron_row ra rb) b) a)"

text \<open>
  \<open>kron(*matrices)\<close> (source lines 14 to 18): starts from \<open>matrices[0]\<close>, which raises
  \<open>IndexError\<close> on an empty argument tuple, and folds \<open>np.kron\<close> over the rest from the
  left. Every call of the source passes 2-D arrays.
\<close>

fun kron :: "matrix list \<Rightarrow> error + matrix" where
  "kron [] = Inl IndexError"
| "kron (m # ms) = Inr (foldl np_kron m ms)"

text \<open>
  The operator \<open>@\<close>. Its left operand is a 2-D operator at every place of the source. With
  a 2-D right operand it is the matrix product, with a 1-D right operand the
  matrix-vector product, which is 1-D again. NumPy raises \<open>ValueError\<close> when the number of
  columns of the left operand is not the length of the first axis of the right one.
\<close>

definition dot :: "vector \<Rightarrow> vector \<Rightarrow> complex" where
  "dot r c = (\<Sum>(x, y)\<leftarrow>zip r c. x * y)"

definition columns :: "matrix \<Rightarrow> matrix" where
  "columns b = (case b of [] \<Rightarrow> [] | r # _ \<Rightarrow> map (\<lambda>j. map (\<lambda>row. row ! j) b) [0..<length r])"

definition matmul_mm :: "matrix \<Rightarrow> matrix \<Rightarrow> error + matrix" where
  "matmul_mm a b =
     (if list_all (\<lambda>row. length row = length b) a
      then Inr (map (\<lambda>row. map (\<lambda>col. dot row col) (columns b)) a)
      else Inl ValueError)"

definition matmul_mv :: "matrix \<Rightarrow> vector \<Rightarrow> error + vector" where
  "matmul_mv a v =
     (if list_all (\<lambda>row. length row = length v) a
      then Inr (map (\<lambda>row. dot row v) a)
      else Inl ValueError)"

fun matmul :: "matrix \<Rightarrow> ndarray \<Rightarrow> error + ndarray" where
  "matmul a (Mat b) = (case matmul_mm a b of Inl e \<Rightarrow> Inl e | Inr c \<Rightarrow> Inr (Mat c))"
| "matmul a (Vec v) = (case matmul_mv a v of Inl e \<Rightarrow> Inl e | Inr w \<Rightarrow> Inr (Vec w))"

text \<open>Scalar times array, and the sum of two arrays of the same shape.\<close>

definition scale :: "complex \<Rightarrow> matrix \<Rightarrow> matrix" where
  "scale c m = map (map (\<lambda>z. c * z)) m"

definition add :: "matrix \<Rightarrow> matrix \<Rightarrow> matrix" where
  "add a b = map (\<lambda>(ra, rb). map (\<lambda>(x, y). x + y) (zip ra rb)) (zip a b)"

section \<open>Basic states and gates\<close>

definition zero :: matrix where "zero = [[1], [0]]"
definition one :: matrix where "one = [[0], [1]]"
definition X :: matrix where "X = [[0, 1], [1, 0]]"
definition Z :: matrix where "Z = [[1, 0], [0, -1]]"
definition H :: matrix where
  "H = scale (complex_of_real (1 / sqrt 2)) [[1, 1], [1, -1]]"
definition I :: matrix where "I = [[1, 0], [0, 1]]"
definition CNOT :: matrix where
  "CNOT = [[1, 0, 0, 0],
           [0, 1, 0, 0],
           [0, 0, 0, 1],
           [0, 0, 1, 0]]"

section \<open>Measurement\<close>

text \<open>
  \<open>np.random.choice(4, p=outcome_probs)\<close> is NumPy's, not this program's. It draws one
  uniform sample \<open>u\<close> from the interval from 0 (included) to 1 (excluded), builds the
  cumulative sums of \<open>p\<close> and returns the number of cumulative sums that are at most \<open>u\<close>
  (\<open>searchsorted\<close> from the right). The sample \<open>u\<close> is the injected random source: it is a
  parameter of everything that measures. NumPy divides the cumulative sums by the last of
  them, which is 1 for the probabilities passed here, and refuses (\<open>ValueError\<close>) a \<open>p\<close>
  that contains \<open>nan\<close>; the caller below models that case.
\<close>

fun cumsum :: "real \<Rightarrow> real list \<Rightarrow> real list" where
  "cumsum acc [] = []"
| "cumsum acc (p # ps) = (acc + p) # cumsum (acc + p) ps"

definition random_choice :: "real list \<Rightarrow> real \<Rightarrow> nat" where
  "random_choice p u = length (takeWhile (\<lambda>c. c \<le> u) (cumsum 0 p))"

definition outcomes :: "(nat \<times> nat) list" where
  "outcomes = [(0, 0), (0, 1), (1, 0), (1, 1)]"

text \<open>\<open>[i for i in range(8) if [(i>>2)&1, (i>>1)&1] == [a, b]]\<close>\<close>

definition mask_for :: "nat \<times> nat \<Rightarrow> nat list" where
  "mask_for ab = filter (\<lambda>i. [drop_bit 2 i AND 1, drop_bit 1 i AND 1] = [fst ab, snd ab]) [0..<8]"

text \<open>
  \<open>measure_two_qubits\<close> (source lines 34 to 49), with the uniform sample \<open>u\<close> of the draw.
  \<^item> \<open>probs[mask]\<close> raises \<open>IndexError\<close> when an index of the mask is not below the length
    of the flattened state; the mask of (1, 1) holds 7, so this is every state of fewer
    than 8 elements.
  \<^item> When the four group probabilities sum to 0, the division gives four \<open>nan\<close> and
    \<open>np.random.choice\<close> raises \<open>ValueError\<close>.
  \<^item> \<open>outcomes[idx]\<close> raises \<open>IndexError\<close> for an index that is not below 4.
  \<^item> \<open>new_state\<close> starts as zeros of the shape of the flattened state and takes the
    state's elements at the indices of the mask.
\<close>

definition measure_two_qubits :: "real \<Rightarrow> ndarray \<Rightarrow> error + ((nat \<times> nat) \<times> ndarray)" where
  "measure_two_qubits u state0 =
     (let state = flatten state0;
          probs = map (\<lambda>z. (cmod z)\<^sup>2) state
      in if length state < 8 then Inl IndexError
         else
           let outcome_sums = map (\<lambda>ab. \<Sum>i\<leftarrow>mask_for ab. probs ! i) outcomes;
               total = sum_list outcome_sums
           in if total = 0 then Inl ValueError
              else
                let outcome_probs = map (\<lambda>p. p / total) outcome_sums;
                    idx = random_choice outcome_probs u
                in if length outcomes \<le> idx then Inl IndexError
                   else
                     let outcome = outcomes ! idx;
                         new_state = foldl (\<lambda>ns i. ns[i := state ! i])
                                       (replicate (length state) 0) (mask_for outcome)
                     in Inr (outcome, Vec (normalize_1d new_state)))"

section \<open>The session and the four steps\<close>

text \<open>
  The module's globals \<open>state\<close>, \<open>psi\<close> and \<open>alice_result\<close>, all \<open>None\<close> at start.
\<close>

record session =
  state :: "ndarray option"
  psi :: "matrix option"
  alice_result :: "(nat \<times> nat) option"

definition start :: session where
  "start = \<lparr>state = None, psi = None, alice_result = None\<rparr>"

text \<open>
  What a step shows to the user: the message box (\<open>showerror\<close> by its title, \<open>showinfo\<close> by
  its message; its title is always Info) or the values it writes to the output box. The
  bar chart is left out: a step that plots always plots the state it has just stored.
\<close>

datatype report =
    ShowError string
  | ShowInfo string
  | Initialized complex complex matrix
  | AliceApplied
  | MeasureResult "nat \<times> nat"
  | BobFinal matrix "matrix option"

text \<open>
  A step takes the session and returns the session it leaves behind, with either its
  report or the exception that escaped it (the GUI's event loop survives an exception, and
  the globals assigned before it stay assigned).
\<close>

type_synonym step_result = "session \<times> (error + report)"

definition bind :: "error + 'a \<Rightarrow> ('a \<Rightarrow> error + 'b) \<Rightarrow> error + 'b" where
  "bind r f = (case r of Inl e \<Rightarrow> Inl e | Inr x \<Rightarrow> f x)"

text \<open>
  \<open>initialize\<close> (source lines 101 to 116). The two arguments are the results of
  \<open>complex(alpha_entry.get())\<close> and \<open>complex(beta_entry.get())\<close>: \<open>None\<close> when the text does
  not parse (\<open>ValueError\<close>, caught by the source).
\<close>

definition initialize :: "complex option \<Rightarrow> complex option \<Rightarrow> session \<Rightarrow> step_result" where
  "initialize alpha_in beta_in s =
     (case (alpha_in, beta_in) of
        (Some alpha, Some beta) \<Rightarrow>
          (let psi' = normalize_2d (add (scale alpha zero) (scale beta one));
               s1 = s\<lparr>psi := Some psi'\<rparr>
           in case bind (kron [zero, zero]) (\<lambda>k0. bind (kron [one, one]) (\<lambda>k1.
                     kron [psi', normalize_2d (add k0 k1)])) of
                Inl e \<Rightarrow> (s1, Inl e)
              | Inr st \<Rightarrow> (s1\<lparr>state := Some (Mat st)\<rparr>, Inr (Initialized alpha beta psi')))
      | _ \<Rightarrow> (s, Inr (ShowError ''Invalid Input'')))"

text \<open>\<open>alice_ops\<close> (source lines 118 to 128).\<close>

definition alice_ops :: "session \<Rightarrow> step_result" where
  "alice_ops s =
     (case state s of
        None \<Rightarrow> (s, Inr (ShowInfo ''Please initialize first.''))
      | Some st \<Rightarrow>
          (case bind (kron [CNOT, I]) (\<lambda>U_cnot. matmul U_cnot st) of
             Inl e \<Rightarrow> (s, Inl e)
           | Inr st1 \<Rightarrow>
               (case bind (kron [H, I, I]) (\<lambda>U_h. matmul U_h st1) of
                  Inl e \<Rightarrow> (s\<lparr>state := Some st1\<rparr>, Inl e)
                | Inr st2 \<Rightarrow> (s\<lparr>state := Some st2\<rparr>, Inr AliceApplied))))"

text \<open>\<open>measure\<close> (source lines 130 to 137), with the uniform sample of the draw.\<close>

definition measure_step :: "real \<Rightarrow> session \<Rightarrow> step_result" where
  "measure_step u s =
     (case state s of
        None \<Rightarrow> (s, Inr (ShowInfo ''Initialize and run Alice's operations first.''))
      | Some st \<Rightarrow>
          (case measure_two_qubits u st of
             Inl e \<Rightarrow> (s, Inl e)
           | Inr (outcome, st') \<Rightarrow>
               (s\<lparr>alice_result := Some outcome, state := Some st'\<rparr>,
                Inr (MeasureResult outcome))))"

text \<open>
  \<open>state[-2:]\<close> keeps the last two entries along the first axis (all of them when there
  are fewer); \<open>.reshape(2, 1)\<close> raises \<open>ValueError\<close> unless exactly two elements are left.
\<close>

fun last_two :: "ndarray \<Rightarrow> ndarray" where
  "last_two (Vec v) = Vec (drop (length v - 2) v)"
| "last_two (Mat m) = Mat (drop (length m - 2) m)"

definition reshape_2_1 :: "ndarray \<Rightarrow> error + matrix" where
  "reshape_2_1 a = (case flatten a of [x, y] \<Rightarrow> Inr [[x], [y]] | _ \<Rightarrow> Inl ValueError)"

text \<open>The \<open>if\<close>/\<open>elif\<close> chain of \<open>bob_correction\<close> that picks the correction.\<close>

definition correction_for :: "nat \<times> nat \<Rightarrow> error + matrix" where
  "correction_for ab =
     (if ab = (0, 0) then Inr I
      else if ab = (0, 1) then Inr X
      else if ab = (1, 0) then Inr Z
      else matmul_mm Z X)"

text \<open>\<open>bob_correction\<close> (source lines 139 to 154).\<close>

definition bob_correction :: "session \<Rightarrow> step_result" where
  "bob_correction s =
     (case (state s, alice_result s) of
        (Some st, Some ab) \<Rightarrow>
          (case bind (correction_for ab) (\<lambda>correction.
                  bind (kron [I, I, correction]) (\<lambda>U_corr. matmul U_corr st)) of
             Inl e \<Rightarrow> (s, Inl e)
           | Inr st' \<Rightarrow>
               (case reshape_2_1 (last_two st') of
                  Inl e \<Rightarrow> (s\<lparr>state := Some st'\<rparr>, Inl e)
                | Inr q \<Rightarrow> (s\<lparr>state := Some st'\<rparr>, Inr (BobFinal (normalize_2d q) (psi s)))))
      | _ \<Rightarrow> (s, Inr (ShowInfo ''Run previous steps first.'')))"

section \<open>The buttons\<close>

text \<open>
  The four buttons (source lines 159 to 162) call the four steps in whatever order the user
  presses them; the event loop runs each handler to its end before the next. A run is the
  list of the presses, each with what the user or the random source supplies to it.
\<close>

datatype op =
    Initialize "complex option" "complex option"
  | AliceOps
  | Measure real
  | BobCorrection

fun step :: "op \<Rightarrow> session \<Rightarrow> step_result" where
  "step (Initialize alpha_in beta_in) s = initialize alpha_in beta_in s"
| "step AliceOps s = alice_ops s"
| "step (Measure u) s = measure_step u s"
| "step BobCorrection s = bob_correction s"

definition run :: "op list \<Rightarrow> session \<Rightarrow> session" where
  "run ops s = foldl (\<lambda>s' p. fst (step p s')) s ops"

section \<open>The vocabulary of the specification\<close>

text \<open>
  The values of qubits 0 and 1 in the basis index \<open>i\<close> of three qubits, qubit 0 most
  significant: bits 2 and 1 of \<open>i\<close>.
\<close>

definition qubit_bits :: "nat \<Rightarrow> nat \<times> nat" where
  "qubit_bits i = (i div 4 mod 2, i div 2 mod 2)"

text \<open>The summed probability of the basis indices whose measured qubits read \<open>ab\<close>.\<close>

definition group_probability :: "vector \<Rightarrow> nat \<times> nat \<Rightarrow> real" where
  "group_probability amps ab =
     (\<Sum>i\<leftarrow>[0..<8]. if qubit_bits i = ab then (cmod (amps ! i))\<^sup>2 else 0)"

text \<open>The four group probabilities, renormalized to sum to 1.\<close>

definition distribution :: "vector \<Rightarrow> real list" where
  "distribution amps =
     map (\<lambda>ab. group_probability amps ab / (\<Sum>ab'\<leftarrow>outcomes. group_probability amps ab'))
       outcomes"

text \<open>The amplitudes whose measured qubits do not read \<open>ab\<close>, zeroed.\<close>

definition collapse :: "vector \<Rightarrow> nat \<times> nat \<Rightarrow> vector" where
  "collapse amps ab = map (\<lambda>i. if qubit_bits i = ab then amps ! i else 0) [0..<8]"

text \<open>
  A state of three qubits: eight amplitudes, as a 1-D array or as a column. A session is
  normalized when its state, if it has one, is such a state of norm 1.
\<close>

fun three_qubit :: "ndarray \<Rightarrow> bool" where
  "three_qubit (Vec v) = (length v = 8)"
| "three_qubit (Mat m) = (length m = 8 \<and> list_all (\<lambda>r. length r = 1) m)"

definition normalized :: "session \<Rightarrow> bool" where
  "normalized s =
     (case state s of
        None \<Rightarrow> True
      | Some st \<Rightarrow> three_qubit st \<and> linalg_norm (flatten st) = 1)"

text \<open>
  A press is regular when it does not enter zero for both amplitudes and, for a
  measurement, when the uniform sample lies where the random source draws it.
\<close>

fun regular :: "op \<Rightarrow> bool" where
  "regular (Initialize alpha_in beta_in) = (\<not> (alpha_in = Some 0 \<and> beta_in = Some 0))"
| "regular AliceOps = True"
| "regular (Measure u) = (0 \<le> u \<and> u < 1)"
| "regular BobCorrection = True"

text \<open>
  The table of the corrections, by the classical bits: the identity, \<open>X\<close>, \<open>Z\<close>, and in the
  last row the product of \<open>Z\<close> and \<open>X\<close> written out.
\<close>

definition correction_table :: "nat \<times> nat \<Rightarrow> matrix" where
  "correction_table ab =
     (if ab = (0, 0) then I
      else if ab = (0, 1) then X
      else if ab = (1, 0) then Z
      else [[0, 1], [- 1, 0]])"

text \<open>
  A single-qubit operator \<open>c\<close> applied to the third qubit and nothing to qubits 0 and 1: for
  each of the four values \<open>j\<close> of qubits 0 and 1, the pair of amplitudes at the indices
  \<open>2 * j\<close> and \<open>2 * j + 1\<close> is multiplied by \<open>c\<close>.
\<close>

definition on_third_qubit :: "matrix \<Rightarrow> vector \<Rightarrow> vector" where
  "on_third_qubit c amps =
     concat (map (\<lambda>j. [c ! 0 ! 0 * amps ! (2 * j) + c ! 0 ! 1 * amps ! (2 * j + 1),
                        c ! 1 ! 0 * amps ! (2 * j) + c ! 1 ! 1 * amps ! (2 * j + 1)])
       [0..<4])"

text \<open>
  The four steps in the order of the protocol, from the start of the program, with the
  two amplitudes entered and the uniform sample of the measurement.
\<close>

definition teleport :: "complex \<Rightarrow> complex \<Rightarrow> real \<Rightarrow> step_result" where
  "teleport alpha beta u =
     bob_correction (fst (measure_step u (fst (alice_ops
       (fst (initialize (Some alpha) (Some beta) start))))))"

text \<open>Two single-qubit states are equal up to a global phase.\<close>

definition up_to_phase :: "matrix \<Rightarrow> matrix \<Rightarrow> bool" where
  "up_to_phase a b = (\<exists>c. cmod c = 1 \<and> a = scale c b)"

text \<open>The factor of the Hadamard gate and of the Bell pair.\<close>

definition r2 :: complex where
  "r2 = 1 / complex_of_real (sqrt 2)"

section \<open>Norms and normalization\<close>

lemma sum_sq_nonneg: "0 \<le> (\<Sum>z\<leftarrow>v. (cmod z)\<^sup>2)"
  by (induction v) auto

lemma sum_sq_zero_iff: "(\<Sum>z\<leftarrow>v. (cmod z)\<^sup>2) = 0 \<longleftrightarrow> list_all (\<lambda>z. z = 0) v"
proof (induction v)
  case Nil
  show ?case by simp
next
  case (Cons a v)
  have "0 \<le> (cmod a)\<^sup>2" by simp
  with sum_sq_nonneg [of v] Cons show ?case
    by (auto simp: add_nonneg_eq_0_iff)
qed

lemma linalg_norm_nonneg: "0 \<le> linalg_norm v"
  by (simp add: linalg_norm_def sum_sq_nonneg)

lemma linalg_norm_zero_iff: "linalg_norm v = 0 \<longleftrightarrow> list_all (\<lambda>z. z = 0) v"
  by (simp add: linalg_norm_def sum_sq_zero_iff)

lemma sum_sq_divide:
  "(\<Sum>z\<leftarrow>map (\<lambda>z. z / complex_of_real c) v. (cmod z)\<^sup>2) = (\<Sum>z\<leftarrow>v. (cmod z)\<^sup>2) / c\<^sup>2"
  by (induction v) (auto simp: norm_divide power_divide add_divide_distrib)

lemma linalg_norm_divide:
  "linalg_norm (map (\<lambda>z. z / complex_of_real c) v) = linalg_norm v / \<bar>c\<bar>"
  unfolding linalg_norm_def sum_sq_divide by (simp add: real_sqrt_divide)

lemma linalg_norm_normalize_1d:
  "linalg_norm v \<noteq> 0 \<Longrightarrow> linalg_norm (normalize_1d v) = 1"
  using linalg_norm_nonneg [of v]
  by (simp add: normalize_1d_def Let_def linalg_norm_divide)

lemma normalize_1d_unit: "linalg_norm v = 1 \<Longrightarrow> normalize_1d v = v"
  by (simp add: normalize_1d_def Let_def)

lemma normalize_1d_zero: "linalg_norm v = 0 \<Longrightarrow> normalize_1d v = v"
  by (simp add: normalize_1d_def)

lemma concat_map_map: "concat (map (map f) m) = map f (concat m)"
  by (induction m) auto

lemma linalg_norm_normalize_2d:
  "linalg_norm (concat m) \<noteq> 0 \<Longrightarrow> linalg_norm (concat (normalize_2d m)) = 1"
  using linalg_norm_nonneg [of "concat m"]
  by (simp add: normalize_2d_def Let_def concat_map_map linalg_norm_divide)

lemma normalize_2d_unit: "linalg_norm (concat m) = 1 \<Longrightarrow> normalize_2d m = m"
  by (simp add: normalize_2d_def Let_def map_idI)

lemma normalize_2d_zero: "linalg_norm (concat m) = 0 \<Longrightarrow> normalize_2d m = m"
  by (simp add: normalize_2d_def)

text \<open>
  C10: \<open>normalize\<close> is idempotent at both ranks at which the source calls it, the all-zero
  array included (it is returned unchanged), and what it returns is all zeros or has
  Euclidean norm exactly 1.
\<close>

theorem normalize_idempotent:
  "normalize_2d (normalize_2d m) = normalize_2d m \<and>
   normalize_1d (normalize_1d v) = normalize_1d v \<and>
   normalize_2d (replicate n (replicate k 0)) = replicate n (replicate k 0) \<and>
   normalize_1d (replicate n 0) = replicate n 0 \<and>
   (list_all (\<lambda>z. z = 0) (concat (normalize_2d m)) \<or> linalg_norm (concat (normalize_2d m)) = 1) \<and>
   (list_all (\<lambda>z. z = 0) (normalize_1d v) \<or> linalg_norm (normalize_1d v) = 1)"
proof -
  have idem2: "normalize_2d (normalize_2d m) = normalize_2d m"
  proof (cases "linalg_norm (concat m) = 0")
    case True
    then show ?thesis by (simp add: normalize_2d_zero)
  next
    case False
    then show ?thesis by (simp add: normalize_2d_unit linalg_norm_normalize_2d)
  qed
  have idem1: "normalize_1d (normalize_1d v) = normalize_1d v"
  proof (cases "linalg_norm v = 0")
    case True
    then show ?thesis by (simp add: normalize_1d_zero)
  next
    case False
    then show ?thesis by (simp add: normalize_1d_unit linalg_norm_normalize_1d)
  qed
  have "list_all (\<lambda>z. z = 0) (concat (replicate n (replicate k (0::complex))))"
    by (induction n) (auto simp: list_all_iff)
  then have zero2: "normalize_2d (replicate n (replicate k 0)) = replicate n (replicate k 0)"
    by (simp add: normalize_2d_zero linalg_norm_zero_iff)
  have "list_all (\<lambda>z. z = 0) (replicate n (0::complex))"
    by (simp add: list_all_iff)
  then have zero1: "normalize_1d (replicate n 0) = replicate n 0"
    by (simp add: normalize_1d_zero linalg_norm_zero_iff)
  have unit2: "list_all (\<lambda>z. z = 0) (concat (normalize_2d m)) \<or>
      linalg_norm (concat (normalize_2d m)) = 1"
  proof (cases "linalg_norm (concat m) = 0")
    case True
    then show ?thesis by (simp add: normalize_2d_zero linalg_norm_zero_iff)
  next
    case False
    then show ?thesis by (simp add: linalg_norm_normalize_2d)
  qed
  have unit1: "list_all (\<lambda>z. z = 0) (normalize_1d v) \<or> linalg_norm (normalize_1d v) = 1"
  proof (cases "linalg_norm v = 0")
    case True
    then show ?thesis by (simp add: normalize_1d_zero linalg_norm_zero_iff)
  next
    case False
    then show ?thesis by (simp add: linalg_norm_normalize_1d)
  qed
  from idem2 idem1 zero2 zero1 unit2 unit1 show ?thesis by blast
qed

section \<open>The Kronecker product\<close>

lemma kron_row_Nil: "kron_row [] rb = []"
  by (simp add: kron_row_def)

lemma kron_row_Cons: "kron_row (x # ra) rb = map (\<lambda>y. x * y) rb @ kron_row ra rb"
  by (simp add: kron_row_def)

lemma kron_row_append: "kron_row (ra @ ra') rb = kron_row ra rb @ kron_row ra' rb"
  by (simp add: kron_row_def)

lemma kron_row_map_left: "kron_row (map (\<lambda>y. x * y) ra) rb = map (\<lambda>y. x * y) (kron_row ra rb)"
  by (induction ra) (auto simp: kron_row_Nil kron_row_Cons mult.assoc)

lemma kron_row_assoc: "kron_row (kron_row ra rb) rc = kron_row ra (kron_row rb rc)"
  by (induction ra) (auto simp: kron_row_Nil kron_row_Cons kron_row_append kron_row_map_left)

lemma np_kron_Nil: "np_kron [] b = []"
  by (simp add: np_kron_def)

lemma np_kron_Cons: "np_kron (ra # a) b = map (kron_row ra) b @ np_kron a b"
  by (simp add: np_kron_def)

lemma np_kron_append: "np_kron (a @ a') b = np_kron a b @ np_kron a' b"
  by (simp add: np_kron_def)

lemma np_kron_map_row:
  "np_kron (map (kron_row ra) b) c =
   concat (map (\<lambda>rb. map (\<lambda>rc. kron_row ra (kron_row rb rc)) c) b)"
  by (induction b) (auto simp: np_kron_Nil np_kron_Cons kron_row_assoc)

lemma map_kron_row_np_kron:
  "map (kron_row ra) (np_kron b c) =
   concat (map (\<lambda>rb. map (\<lambda>rc. kron_row ra (kron_row rb rc)) c) b)"
  by (induction b) (auto simp: np_kron_Nil np_kron_Cons)

lemma np_kron_assoc: "np_kron (np_kron a b) c = np_kron a (np_kron b c)"
  by (induction a)
    (auto simp: np_kron_Nil np_kron_Cons np_kron_append np_kron_map_row map_kron_row_np_kron)

text \<open>
  The entries of \<open>np_kron\<close>: entry (i * rows(b) + k, j * columns(b) + l) of the product is
  \<open>a[i][j] * b[k][l]\<close>, the Kronecker product.
\<close>

lemma nth_concat_uniform:
  assumes "list_all (\<lambda>x. length (f x) = n) xs" and "i < length xs" and "k < n"
  shows "concat (map f xs) ! (i * n + k) = f (xs ! i) ! k"
  using assms
proof (induction xs arbitrary: i)
  case Nil
  then show ?case by simp
next
  case (Cons x xs)
  show ?case
  proof (cases i)
    case 0
    with Cons.prems show ?thesis by (simp add: nth_append)
  next
    case (Suc i')
    with Cons.prems have "concat (map f xs) ! (i' * n + k) = f (xs ! i') ! k"
      by (intro Cons.IH) simp_all
    with Suc Cons.prems show ?thesis by (simp add: nth_append)
  qed
qed

lemma kron_row_nth:
  "j < length ra \<Longrightarrow> l < length rb \<Longrightarrow>
   kron_row ra rb ! (j * length rb + l) = ra ! j * rb ! l"
  unfolding kron_row_def
  by (subst nth_concat_uniform [where n = "length rb"]) (simp_all add: list_all_iff)

lemma np_kron_row_nth:
  "i < length a \<Longrightarrow> k < length b \<Longrightarrow>
   np_kron a b ! (i * length b + k) = kron_row (a ! i) (b ! k)"
  unfolding np_kron_def
  by (subst nth_concat_uniform [where n = "length b"]) (simp_all add: list_all_iff)

lemma np_kron_nth:
  assumes "i < length a" and "k < length b" and "j < length (a ! i)" and "l < length (b ! k)"
  shows "np_kron a b ! (i * length b + k) ! (j * length (b ! k) + l) = a ! i ! j * b ! k ! l"
  using assms by (simp add: np_kron_row_nth kron_row_nth)

lemma length_np_kron: "length (np_kron a b) = length a * length b"
  by (induction a) (simp_all add: np_kron_Nil np_kron_Cons)

lemma length_kron_row: "length (kron_row ra rb) = length ra * length rb"
  by (induction ra) (simp_all add: kron_row_Nil kron_row_Cons)

text \<open>
  C8: \<open>kron\<close> folds \<open>np.kron\<close> over its arguments from the left and returns a single
  argument unchanged; \<open>np.kron\<close> is the Kronecker product, given by its number of rows, the
  length of each row and every entry; and nesting \<open>kron\<close> to the left or to the right
  gives the same array, element by element.
\<close>

theorem kron_kronecker_associative:
  "kron [a] = Inr a \<and>
   kron (m # ms) = Inr (foldl np_kron m ms) \<and>
   kron [a, b, c] = Inr (np_kron (np_kron a b) c) \<and>
   bind (kron [a, b]) (\<lambda>ab. kron [ab, c]) = bind (kron [b, c]) (\<lambda>bc. kron [a, bc]) \<and>
   bind (kron [a, b]) (\<lambda>ab. kron [ab, c]) = kron [a, b, c] \<and>
   length (np_kron a b) = length a * length b \<and>
   (\<forall>i<length a. \<forall>k<length b.
      length (np_kron a b ! (i * length b + k)) = length (a ! i) * length (b ! k) \<and>
      (\<forall>j<length (a ! i). \<forall>l<length (b ! k).
         np_kron a b ! (i * length b + k) ! (j * length (b ! k) + l) = a ! i ! j * b ! k ! l))"
proof -
  have fold: "kron [a] = Inr a \<and>
   kron (m # ms) = Inr (foldl np_kron m ms) \<and>
   kron [a, b, c] = Inr (np_kron (np_kron a b) c) \<and>
   bind (kron [a, b]) (\<lambda>ab. kron [ab, c]) = bind (kron [b, c]) (\<lambda>bc. kron [a, bc]) \<and>
   bind (kron [a, b]) (\<lambda>ab. kron [ab, c]) = kron [a, b, c]"
    by (simp add: bind_def np_kron_assoc)
  have entries: "\<forall>i<length a. \<forall>k<length b.
      length (np_kron a b ! (i * length b + k)) = length (a ! i) * length (b ! k) \<and>
      (\<forall>j<length (a ! i). \<forall>l<length (b ! k).
         np_kron a b ! (i * length b + k) ! (j * length (b ! k) + l) = a ! i ! j * b ! k ! l)"
    by (simp add: np_kron_row_nth kron_row_nth length_kron_row)
  from fold entries length_np_kron [of a b] show ?thesis
    by blast
qed

text \<open>
  The theorem on \<open>X\<close> and \<open>Z\<close>: the product has four rows of four entries, and the entry
  in row 2 and column 1 is the product of the entries (1, 0) of \<open>X\<close> and (0, 1) of \<open>Z\<close>.
\<close>

theorem kron_kronecker_associative_witness:
  "(1::nat) < length X \<and> (0::nat) < length Z \<and>
   (0::nat) < length (X ! 1) \<and> (1::nat) < length (Z ! 0) \<and>
   kron [X, Z] = Inr [[0, 0, 1, 0], [0, 0, 0, - 1], [1, 0, 0, 0], [0, - 1, 0, 0]] \<and>
   length (np_kron X Z) = 4 \<and>
   length (np_kron X Z ! 2) = 4 \<and>
   np_kron X Z ! 2 ! 1 = X ! 1 ! 0 * Z ! 0 ! 1 \<and>
   np_kron X Z ! 3 ! 1 = - 1"
proof -
  have h: "(1::nat) < length X" "(0::nat) < length Z" "(0::nat) < length (X ! 1)"
    "(1::nat) < length (Z ! 0)"
    by (simp_all add: X_def Z_def)
  have lens: "length X = 2" "length Z = 2" "length (X ! 1) = 2" "length (Z ! 0) = 2"
    by (simp_all add: X_def Z_def)
  note t = kron_kronecker_associative [of X X "[Z]" Z X]
  from t have k: "kron [X, Z] = Inr (np_kron X Z)" by simp
  from t have len: "length (np_kron X Z) = length X * length Z" by blast
  from t h have row: "length (np_kron X Z ! (1 * length Z + 0)) = length (X ! 1) * length (Z ! 0)"
    by blast
  from t h have e: "np_kron X Z ! (1 * length Z + 0) ! (0 * length (Z ! 0) + 1) = X ! 1 ! 0 * Z ! 0 ! 1"
    by blast
  have v: "np_kron X Z = [[0, 0, 1, 0], [0, 0, 0, - 1], [1, 0, 0, 0], [0, - 1, 0, 0]]"
    by (simp add: X_def Z_def np_kron_def kron_row_def)
  from h k len row e show ?thesis
    unfolding lens by (simp add: v)
qed

section \<open>The operators of the protocol\<close>

lemma r2_square: "r2 * r2 = 1 / 2"
  by (simp add: r2_def flip: of_real_mult)

lemma cmod_r2_square: "(cmod r2)\<^sup>2 = 1 / 2"
  by (simp add: r2_def norm_divide power_divide)

lemma U_cnot_eq:
  "np_kron CNOT I =
     [[1, 0, 0, 0, 0, 0, 0, 0],
      [0, 1, 0, 0, 0, 0, 0, 0],
      [0, 0, 1, 0, 0, 0, 0, 0],
      [0, 0, 0, 1, 0, 0, 0, 0],
      [0, 0, 0, 0, 0, 0, 1, 0],
      [0, 0, 0, 0, 0, 0, 0, 1],
      [0, 0, 0, 0, 1, 0, 0, 0],
      [0, 0, 0, 0, 0, 1, 0, 0]]"
  by (simp add: CNOT_def I_def np_kron_def kron_row_def)

lemma U_h_eq:
  "np_kron (np_kron H I) I =
     [[r2, 0, 0, 0, r2, 0, 0, 0],
      [0, r2, 0, 0, 0, r2, 0, 0],
      [0, 0, r2, 0, 0, 0, r2, 0],
      [0, 0, 0, r2, 0, 0, 0, r2],
      [r2, 0, 0, 0, - r2, 0, 0, 0],
      [0, r2, 0, 0, 0, - r2, 0, 0],
      [0, 0, r2, 0, 0, 0, - r2, 0],
      [0, 0, 0, r2, 0, 0, 0, - r2]]"
  by (simp add: H_def I_def scale_def np_kron_def kron_row_def r2_def)

lemma U_corr_eq:
  "np_kron (np_kron I I) [[c00, c01], [c10, c11]] =
     [[c00, c01, 0, 0, 0, 0, 0, 0],
      [c10, c11, 0, 0, 0, 0, 0, 0],
      [0, 0, c00, c01, 0, 0, 0, 0],
      [0, 0, c10, c11, 0, 0, 0, 0],
      [0, 0, 0, 0, c00, c01, 0, 0],
      [0, 0, 0, 0, c10, c11, 0, 0],
      [0, 0, 0, 0, 0, 0, c00, c01],
      [0, 0, 0, 0, 0, 0, c10, c11]]"
  by (simp add: I_def np_kron_def kron_row_def)

lemma Z_after_X: "matmul_mm Z X = Inr [[0, 1], [- 1, 0]]"
  by (simp add: matmul_mm_def Z_def X_def columns_def dot_def)

lemma correction_for_outcomes:
  "correction_for (0, 0) = Inr [[1, 0], [0, 1]]"
  "correction_for (0, 1) = Inr [[0, 1], [1, 0]]"
  "correction_for (1, 0) = Inr [[1, 0], [0, - 1]]"
  "correction_for (1, 1) = Inr [[0, 1], [- 1, 0]]"
  by (simp_all add: correction_for_def Z_after_X) (simp_all add: I_def X_def Z_def)

lemma length8_obtain:
  assumes "length (v :: 'a list) = 8"
  obtains a0 a1 a2 a3 a4 a5 a6 a7 where "v = [a0, a1, a2, a3, a4, a5, a6, a7]"
  using assms by (auto simp: length_Suc_conv eval_nat_numeral intro: that)

lemma alice_ops_Vec8:
  assumes "state s = Some (Vec [a0, a1, a2, a3, a4, a5, a6, a7])"
  shows "alice_ops s =
    (s\<lparr>state := Some (Vec [r2 * (a0 + a6), r2 * (a1 + a7), r2 * (a2 + a4), r2 * (a3 + a5),
                            r2 * (a0 - a6), r2 * (a1 - a7), r2 * (a2 - a4), r2 * (a3 - a5)])\<rparr>,
     Inr AliceApplied)"
  using assms
  by (simp add: alice_ops_def bind_def U_cnot_eq U_h_eq matmul_mv_def dot_def algebra_simps)

lemma alice_ops_Mat8:
  assumes "state s = Some (Mat [[a0], [a1], [a2], [a3], [a4], [a5], [a6], [a7]])"
  shows "alice_ops s =
    (s\<lparr>state := Some (Mat [[r2 * (a0 + a6)], [r2 * (a1 + a7)], [r2 * (a2 + a4)], [r2 * (a3 + a5)],
                            [r2 * (a0 - a6)], [r2 * (a1 - a7)], [r2 * (a2 - a4)], [r2 * (a3 - a5)]])\<rparr>,
     Inr AliceApplied)"
  using assms
  by (simp add: alice_ops_def bind_def U_cnot_eq U_h_eq matmul_mm_def columns_def dot_def algebra_simps)

lemma apply_U_corr_Vec8:
  "bind (kron [I, I, [[c00, c01], [c10, c11]]])
     (\<lambda>U_corr. matmul U_corr (Vec [a0, a1, a2, a3, a4, a5, a6, a7])) =
   Inr (Vec [c00 * a0 + c01 * a1, c10 * a0 + c11 * a1, c00 * a2 + c01 * a3, c10 * a2 + c11 * a3,
             c00 * a4 + c01 * a5, c10 * a4 + c11 * a5, c00 * a6 + c01 * a7, c10 * a6 + c11 * a7])"
  by (simp add: bind_def U_corr_eq matmul_mv_def dot_def)

lemma apply_U_corr_Mat8:
  "bind (kron [I, I, [[c00, c01], [c10, c11]]])
     (\<lambda>U_corr. matmul U_corr (Mat [[a0], [a1], [a2], [a3], [a4], [a5], [a6], [a7]])) =
   Inr (Mat [[c00 * a0 + c01 * a1], [c10 * a0 + c11 * a1], [c00 * a2 + c01 * a3], [c10 * a2 + c11 * a3],
             [c00 * a4 + c01 * a5], [c10 * a4 + c11 * a5], [c00 * a6 + c01 * a7], [c10 * a6 + c11 * a7]])"
  by (simp add: bind_def U_corr_eq matmul_mm_def columns_def dot_def)

section \<open>The measurement\<close>

lemma mask_for_values:
  "mask_for (0, 0) = [0, 1]" "mask_for (0, 1) = [2, 3]"
  "mask_for (1, 0) = [4, 5]" "mask_for (1, 1) = [6, 7]"
  by (code_simp+)

lemma mask_for_Suc:
  "mask_for (0, 0) = [0, Suc 0]" "mask_for (0, Suc 0) = [2, 3]"
  "mask_for (Suc 0, 0) = [4, 5]" "mask_for (Suc 0, Suc 0) = [6, 7]"
  using mask_for_values by simp_all

lemma takeWhile_cumsum:
  "acc \<le> u \<Longrightarrow> u < acc + sum_list p \<Longrightarrow> list_all (\<lambda>x. 0 \<le> x) p \<Longrightarrow>
   length (takeWhile (\<lambda>c. c \<le> u) (cumsum acc p)) < length p \<and>
   0 < p ! length (takeWhile (\<lambda>c. c \<le> u) (cumsum acc p))"
proof (induction p arbitrary: acc)
  case Nil
  then show ?case by simp
next
  case (Cons q p)
  show ?case
  proof (cases "acc + q \<le> u")
    case True
    with Cons.prems have "u < (acc + q) + sum_list p" "list_all (\<lambda>x. 0 \<le> x) p"
      by simp_all
    from Cons.IH [OF True this] True show ?thesis by simp
  next
    case False
    with Cons.prems show ?thesis by simp
  qed
qed

lemma random_choice_positive:
  "0 \<le> u \<Longrightarrow> u < 1 \<Longrightarrow> sum_list p = 1 \<Longrightarrow> list_all (\<lambda>x. 0 \<le> x) p \<Longrightarrow>
   random_choice p u < length p \<and> 0 < p ! random_choice p u"
  unfolding random_choice_def using takeWhile_cumsum [of 0 u p] by simp

lemma outcome_sums_8:
  "map (\<lambda>ab. \<Sum>i\<leftarrow>mask_for ab. map (\<lambda>z. (cmod z)\<^sup>2) [a0, a1, a2, a3, a4, a5, a6, a7] ! i) outcomes =
   [(cmod a0)\<^sup>2 + (cmod a1)\<^sup>2, (cmod a2)\<^sup>2 + (cmod a3)\<^sup>2,
    (cmod a4)\<^sup>2 + (cmod a5)\<^sup>2, (cmod a6)\<^sup>2 + (cmod a7)\<^sup>2]"
  by (simp add: outcomes_def mask_for_Suc)

lemma new_state_8:
  "foldl (\<lambda>ns i. ns[i := [a0, a1, a2, a3, a4, a5, a6, a7] ! i]) (replicate 8 0) (mask_for (0, 0)) =
     [a0, a1, 0, 0, 0, 0, 0, 0]"
  "foldl (\<lambda>ns i. ns[i := [a0, a1, a2, a3, a4, a5, a6, a7] ! i]) (replicate 8 0) (mask_for (0, 1)) =
     [0, 0, a2, a3, 0, 0, 0, 0]"
  "foldl (\<lambda>ns i. ns[i := [a0, a1, a2, a3, a4, a5, a6, a7] ! i]) (replicate 8 0) (mask_for (1, 0)) =
     [0, 0, 0, 0, a4, a5, 0, 0]"
  "foldl (\<lambda>ns i. ns[i := [a0, a1, a2, a3, a4, a5, a6, a7] ! i]) (replicate 8 0) (mask_for (1, 1)) =
     [0, 0, 0, 0, 0, 0, a6, a7]"
  by (simp_all add: mask_for_Suc eval_nat_numeral)

lemma group_probability_8:
  "group_probability [a0, a1, a2, a3, a4, a5, a6, a7] (0, 0) = (cmod a0)\<^sup>2 + (cmod a1)\<^sup>2"
  "group_probability [a0, a1, a2, a3, a4, a5, a6, a7] (0, 1) = (cmod a2)\<^sup>2 + (cmod a3)\<^sup>2"
  "group_probability [a0, a1, a2, a3, a4, a5, a6, a7] (1, 0) = (cmod a4)\<^sup>2 + (cmod a5)\<^sup>2"
  "group_probability [a0, a1, a2, a3, a4, a5, a6, a7] (1, 1) = (cmod a6)\<^sup>2 + (cmod a7)\<^sup>2"
  by (simp_all add: group_probability_def qubit_bits_def upt_rec [of _ "numeral _"] upt_rec [of _ "Suc _"])

lemma collapse_8:
  "collapse [a0, a1, a2, a3, a4, a5, a6, a7] (0, 0) = [a0, a1, 0, 0, 0, 0, 0, 0]"
  "collapse [a0, a1, a2, a3, a4, a5, a6, a7] (0, 1) = [0, 0, a2, a3, 0, 0, 0, 0]"
  "collapse [a0, a1, a2, a3, a4, a5, a6, a7] (1, 0) = [0, 0, 0, 0, a4, a5, 0, 0]"
  "collapse [a0, a1, a2, a3, a4, a5, a6, a7] (1, 1) = [0, 0, 0, 0, 0, 0, a6, a7]"
  by (simp_all add: collapse_def qubit_bits_def upt_rec [of _ "numeral _"] upt_rec [of _ "Suc _"])

lemma outcomes_nth:
  "outcomes ! 0 = (0, 0)" "outcomes ! 1 = (0, 1)" "outcomes ! 2 = (1, 0)" "outcomes ! 3 = (1, 1)"
  by (simp_all add: outcomes_def)

lemma less_4_cases: "k < 4 \<Longrightarrow> k = 0 \<or> k = 1 \<or> k = 2 \<or> k = (3::nat)"
  by arith

lemma measure_two_qubits_8:
  assumes st: "flatten st = [a0, a1, a2, a3, a4, a5, a6, a7]"
    and t: "t = (cmod a0)\<^sup>2 + (cmod a1)\<^sup>2 + ((cmod a2)\<^sup>2 + (cmod a3)\<^sup>2) +
              ((cmod a4)\<^sup>2 + (cmod a5)\<^sup>2) + ((cmod a6)\<^sup>2 + (cmod a7)\<^sup>2)"
    and nz: "t \<noteq> 0"
    and k: "random_choice [((cmod a0)\<^sup>2 + (cmod a1)\<^sup>2) / t, ((cmod a2)\<^sup>2 + (cmod a3)\<^sup>2) / t,
              ((cmod a4)\<^sup>2 + (cmod a5)\<^sup>2) / t, ((cmod a6)\<^sup>2 + (cmod a7)\<^sup>2) / t] u = k"
    and k4: "k < 4"
  shows "measure_two_qubits u st =
         Inr (outcomes ! k, Vec (normalize_1d (collapse [a0, a1, a2, a3, a4, a5, a6, a7] (outcomes ! k))))"
proof -
  have sums: "sum_list [(cmod a0)\<^sup>2 + (cmod a1)\<^sup>2, (cmod a2)\<^sup>2 + (cmod a3)\<^sup>2,
    (cmod a4)\<^sup>2 + (cmod a5)\<^sup>2, (cmod a6)\<^sup>2 + (cmod a7)\<^sup>2] = t"
    using t by simp
  have len: "length outcomes = 4"
    by (simp add: outcomes_def)
  have new: "foldl (\<lambda>ns i. ns[i := [a0, a1, a2, a3, a4, a5, a6, a7] ! i]) (replicate 8 0)
      (mask_for (outcomes ! k)) = collapse [a0, a1, a2, a3, a4, a5, a6, a7] (outcomes ! k)"
    using less_4_cases [OF k4]
    by (auto simp only: outcomes_nth new_state_8 collapse_8)
  have rep: "replicate (length [a0, a1, a2, a3, a4, a5, a6, a7]) (0::complex) = replicate 8 0"
    by (simp add: eval_nat_numeral)
  have dist: "map (\<lambda>p. p / t) [(cmod a0)\<^sup>2 + (cmod a1)\<^sup>2, (cmod a2)\<^sup>2 + (cmod a3)\<^sup>2,
      (cmod a4)\<^sup>2 + (cmod a5)\<^sup>2, (cmod a6)\<^sup>2 + (cmod a7)\<^sup>2] =
    [((cmod a0)\<^sup>2 + (cmod a1)\<^sup>2) / t, ((cmod a2)\<^sup>2 + (cmod a3)\<^sup>2) / t,
     ((cmod a4)\<^sup>2 + (cmod a5)\<^sup>2) / t, ((cmod a6)\<^sup>2 + (cmod a7)\<^sup>2) / t]"
    by simp
  show ?thesis
    unfolding measure_two_qubits_def Let_def st outcome_sums_8 sums rep dist k new
    using nz k4 by (simp add: len)
qed

lemma all_less_8:
  "(\<forall>i<8. P (i::nat)) \<longleftrightarrow> P 0 \<and> P 1 \<and> P 2 \<and> P 3 \<and> P 4 \<and> P 5 \<and> P 6 \<and> P 7"
proof -
  have "i < 8 \<longleftrightarrow> i = 0 \<or> i = 1 \<or> i = 2 \<or> i = 3 \<or> i = 4 \<or> i = 5 \<or> i = 6 \<or> i = 7"
    for i :: nat by arith
  then show ?thesis by (simp only:) blast
qed

lemma qubit_bits_values:
  "qubit_bits 0 = (0, 0)" "qubit_bits 1 = (0, 0)" "qubit_bits 2 = (0, 1)" "qubit_bits 3 = (0, 1)"
  "qubit_bits 4 = (1, 0)" "qubit_bits 5 = (1, 0)" "qubit_bits 6 = (1, 1)" "qubit_bits 7 = (1, 1)"
  by (simp_all add: qubit_bits_def)

lemma distribution_8:
  "distribution [a0, a1, a2, a3, a4, a5, a6, a7] =
   (let t = (cmod a0)\<^sup>2 + (cmod a1)\<^sup>2 + ((cmod a2)\<^sup>2 + (cmod a3)\<^sup>2) +
              ((cmod a4)\<^sup>2 + (cmod a5)\<^sup>2) + ((cmod a6)\<^sup>2 + (cmod a7)\<^sup>2)
    in [((cmod a0)\<^sup>2 + (cmod a1)\<^sup>2) / t, ((cmod a2)\<^sup>2 + (cmod a3)\<^sup>2) / t,
        ((cmod a4)\<^sup>2 + (cmod a5)\<^sup>2) / t, ((cmod a6)\<^sup>2 + (cmod a7)\<^sup>2) / t])"
  unfolding distribution_def outcomes_def list.map group_probability_8 Let_def
  by (simp add: add.assoc)

lemma linalg_norm_8:
  "linalg_norm [a0, a1, a2, a3, a4, a5, a6, a7] =
   sqrt ((cmod a0)\<^sup>2 + (cmod a1)\<^sup>2 + ((cmod a2)\<^sup>2 + (cmod a3)\<^sup>2) +
         ((cmod a4)\<^sup>2 + (cmod a5)\<^sup>2) + ((cmod a6)\<^sup>2 + (cmod a7)\<^sup>2))"
  by (simp add: linalg_norm_def add.assoc)

lemma linalg_norm_collapse_8:
  "k < 4 \<Longrightarrow> linalg_norm (collapse [a0, a1, a2, a3, a4, a5, a6, a7] (outcomes ! k)) =
     sqrt (group_probability [a0, a1, a2, a3, a4, a5, a6, a7] (outcomes ! k))"
  by (drule less_4_cases)
    (auto simp only: outcomes_nth collapse_8 group_probability_8, simp_all add: linalg_norm_def)

lemma normalize_1d_collapse_8:
  "normalize_1d [a0, a1, a2, a3, a4, a5, a6, a7] =
     (if linalg_norm [a0, a1, a2, a3, a4, a5, a6, a7] \<noteq> 0
      then map (\<lambda>z. z / complex_of_real (linalg_norm [a0, a1, a2, a3, a4, a5, a6, a7]))
             [a0, a1, a2, a3, a4, a5, a6, a7]
      else [a0, a1, a2, a3, a4, a5, a6, a7])"
  by (simp add: normalize_1d_def Let_def)

lemma collapse_nth:
  "i < 8 \<Longrightarrow> collapse amps ab ! i = (if qubit_bits i = ab then amps ! i else 0)"
  by (simp add: collapse_def)

lemma length_collapse: "length (collapse amps ab) = 8"
  by (simp add: collapse_def)

lemma normalize_1d_nth:
  "i < length v \<Longrightarrow> linalg_norm v \<noteq> 0 \<Longrightarrow>
   normalize_1d v ! i = v ! i / complex_of_real (linalg_norm v)"
  by (simp add: normalize_1d_def Let_def)

lemma measure_two_qubits_collapse:
  fixes st :: ndarray and u :: real
  assumes len: "length (flatten st) = 8"
    and nz: "linalg_norm (flatten st) \<noteq> 0"
    and u: "0 \<le> u" "u < 1"
  defines "amps \<equiv> flatten st"
  defines "ab \<equiv> outcomes ! random_choice (distribution amps) u"
  shows "sum_list (distribution amps) = 1 \<and>
         list_all (\<lambda>p. 0 \<le> p) (distribution amps) \<and>
         random_choice (distribution amps) u < length outcomes \<and>
         0 < group_probability amps ab \<and>
         measure_two_qubits u st = Inr (ab, Vec (normalize_1d (collapse amps ab))) \<and>
         linalg_norm (normalize_1d (collapse amps ab)) = 1 \<and>
         (\<forall>i<8. normalize_1d (collapse amps ab) ! i =
            (if qubit_bits i = ab
             then amps ! i / complex_of_real (sqrt (group_probability amps ab)) else 0))"
proof -
  from len obtain a0 a1 a2 a3 a4 a5 a6 a7 where amps: "amps = [a0, a1, a2, a3, a4, a5, a6, a7]"
    unfolding amps_def by (rule length8_obtain)
  define t where "t = (cmod a0)\<^sup>2 + (cmod a1)\<^sup>2 + ((cmod a2)\<^sup>2 + (cmod a3)\<^sup>2) +
              ((cmod a4)\<^sup>2 + (cmod a5)\<^sup>2) + ((cmod a6)\<^sup>2 + (cmod a7)\<^sup>2)"
  define dist where "dist = [((cmod a0)\<^sup>2 + (cmod a1)\<^sup>2) / t, ((cmod a2)\<^sup>2 + (cmod a3)\<^sup>2) / t,
        ((cmod a4)\<^sup>2 + (cmod a5)\<^sup>2) / t, ((cmod a6)\<^sup>2 + (cmod a7)\<^sup>2) / t]"
  have dist: "distribution amps = dist"
    by (simp add: amps distribution_8 Let_def t_def dist_def)
  have "linalg_norm amps = sqrt t"
    by (simp add: amps linalg_norm_8 t_def)
  with nz have t_nz: "t \<noteq> 0"
    by (auto simp: amps_def)
  have "0 \<le> t"
    by (simp add: t_def)
  with t_nz have t_pos: "0 < t" by simp
  have sum1: "sum_list dist = 1"
    using t_nz by (simp add: dist_def t_def flip: add_divide_distrib)
  have nonneg: "list_all (\<lambda>p. 0 \<le> p) dist"
    using t_pos by (simp add: dist_def)
  define k where "k = random_choice dist u"
  from random_choice_positive [OF u sum1 nonneg]
  have k4: "k < 4" and pos: "0 < dist ! k"
    by (simp_all add: k_def dist_def)
  have ab: "ab = outcomes ! k"
    by (simp add: ab_def dist k_def)
  have gp: "group_probability amps ab = dist ! k * t"
    using less_4_cases [OF k4] t_nz unfolding ab amps
    by (auto simp only: outcomes_nth group_probability_8) (simp_all add: dist_def)
  with pos t_pos have gpos: "0 < group_probability amps ab"
    by simp
  have m: "measure_two_qubits u st = Inr (ab, Vec (normalize_1d (collapse amps ab)))"
    unfolding ab amps
    by (rule measure_two_qubits_8 [OF amps [unfolded amps_def] t_def t_nz _ k4])
      (simp add: k_def dist_def)
  have norm_c: "linalg_norm (collapse amps ab) = sqrt (group_probability amps ab)"
    unfolding ab amps by (rule linalg_norm_collapse_8 [OF k4])
  with gpos have c_nz: "linalg_norm (collapse amps ab) \<noteq> 0"
    by simp
  then have unit: "linalg_norm (normalize_1d (collapse amps ab)) = 1"
    by (rule linalg_norm_normalize_1d)
  have nth: "\<forall>i<8. normalize_1d (collapse amps ab) ! i =
            (if qubit_bits i = ab
             then amps ! i / complex_of_real (sqrt (group_probability amps ab)) else 0)"
    using c_nz by (simp add: normalize_1d_nth length_collapse collapse_nth norm_c)
  from sum1 nonneg k4 gpos m unit nth show ?thesis
    by (simp add: dist k_def outcomes_def)
qed

text \<open>
  C4: on a state of eight amplitudes that are not all zero and a uniform sample in the
  range of the random source, \<open>measure_two_qubits\<close> computes the squared moduli, sums
  them in the four groups given by bits 2 and 1 of the index, divides the four sums by
  their total so that they sum to 1, draws the outcome from that distribution, and returns
  it with the state in which the amplitudes of the other groups are zero and those of the
  drawn group are the input's, divided by the norm of what survives: the result of
  \<open>normalize\<close>, of norm 1.
\<close>

theorem measure_two_qubits_algorithm:
  fixes st :: ndarray and u :: real
  assumes len: "length (flatten st) = 8"
    and nz: "linalg_norm (flatten st) \<noteq> 0"
    and u: "0 \<le> u" "u < 1"
  defines "amps \<equiv> flatten st"
  defines "ab \<equiv> outcomes ! random_choice (distribution amps) u"
  shows "sum_list (distribution amps) = 1 \<and>
         list_all (\<lambda>p. 0 \<le> p) (distribution amps) \<and>
         random_choice (distribution amps) u < length outcomes \<and>
         0 < group_probability amps ab \<and>
         measure_two_qubits u st = Inr (ab, Vec (normalize_1d (collapse amps ab))) \<and>
         linalg_norm (normalize_1d (collapse amps ab)) = 1 \<and>
         (\<forall>i<8. normalize_1d (collapse amps ab) ! i =
            (if qubit_bits i = ab
             then amps ! i / complex_of_real (sqrt (group_probability amps ab)) else 0))"
  unfolding amps_def ab_def by (rule measure_two_qubits_collapse [OF len nz u])

lemma sqrt_quarter: "sqrt (1 / 4) = 1 / 2"
  by (simp add: real_sqrt_divide)

lemma ex_norm: "linalg_norm [3 / 10, 2 / 5, 2 / 5, 3 / 10, 3 / 10, - (2 / 5), - (2 / 5), 3 / 10] = 1"
  by (simp add: linalg_norm_def power2_eq_square)

lemma ex_dist: "distribution [3 / 10, 2 / 5, 2 / 5, 3 / 10, 3 / 10, - (2 / 5), - (2 / 5), 3 / 10] = [1 / 4, 1 / 4, 1 / 4, 1 / 4]"
  by (simp add: distribution_8 power2_eq_square)

lemma ex_choice: "random_choice [1 / 4, 1 / 4, 1 / 4, 1 / 4] (3 / 5) = 2"
  by (simp add: random_choice_def)

lemma ex_normalize: "normalize_1d [0, 0, 0, 0, 3 / 10, - (2 / 5), 0, 0] = [0, 0, 0, 0, 3 / 5, - (4 / 5), 0, 0]"
  by (simp add: normalize_1d_def linalg_norm_def power2_eq_square sqrt_quarter)

text \<open>
  The theorem on the state after Alice's operations on 0.6 and 0.8 and the sample 0.6:
  the four groups have probability 1/4 each, the draw is (1, 0), and the collapsed state
  keeps the amplitudes 4 and 5, doubled.
\<close>

theorem measure_two_qubits_algorithm_witness:
  "length (flatten (Vec [3 / 10, 2 / 5, 2 / 5, 3 / 10, 3 / 10, - (2 / 5), - (2 / 5), 3 / 10])) = 8 \<and>
   linalg_norm (flatten (Vec [3 / 10, 2 / 5, 2 / 5, 3 / 10, 3 / 10, - (2 / 5), - (2 / 5), 3 / 10])) \<noteq> 0 \<and>
   (0::real) \<le> 3 / 5 \<and> (3 / 5 :: real) < 1 \<and>
   distribution [3 / 10, 2 / 5, 2 / 5, 3 / 10, 3 / 10, - (2 / 5), - (2 / 5), 3 / 10] =
     [1 / 4, 1 / 4, 1 / 4, 1 / 4] \<and>
   measure_two_qubits (3 / 5) (Vec [3 / 10, 2 / 5, 2 / 5, 3 / 10, 3 / 10, - (2 / 5), - (2 / 5), 3 / 10]) =
     Inr ((1, 0), Vec [0, 0, 0, 0, 3 / 5, - (4 / 5), 0, 0])"
proof -
  let ?st = "Vec [3 / 10, 2 / 5, 2 / 5, 3 / 10, 3 / 10, - (2 / 5), - (2 / 5), 3 / 10]"
  have h1: "length (flatten ?st) = 8" by simp
  have h2: "linalg_norm (flatten ?st) \<noteq> 0" by (simp add: ex_norm)
  have h3: "(0::real) \<le> 3 / 5" "(3 / 5 :: real) < 1" by simp_all
  have "measure_two_qubits (3 / 5) ?st = Inr ((1, 0), Vec [0, 0, 0, 0, 3 / 5, - (4 / 5), 0, 0])"
    using measure_two_qubits_algorithm [OF h1 h2 h3]
    unfolding flatten.simps ex_dist ex_choice outcomes_nth collapse_8 ex_normalize
    by simp
  with h1 h2 h3 show ?thesis by (simp add: ex_dist)
qed

section \<open>Initialization\<close>

lemma bell_eq: "normalize_2d [[1], [0], [0], [1]] = [[r2], [0], [0], [r2]]"
  by (simp add: normalize_2d_def linalg_norm_def r2_def Let_def)

lemma initialize_column:
  assumes "normalize_2d [[alpha], [beta]] = [[p0], [p1]]"
  shows "initialize (Some alpha) (Some beta) s =
           (s\<lparr>psi := Some [[p0], [p1]],
              state := Some (Mat [[p0 * r2], [0], [0], [p0 * r2],
                                  [p1 * r2], [0], [0], [p1 * r2]])\<rparr>,
            Inr (Initialized alpha beta [[p0], [p1]]))"
proof -
  have psi: "normalize_2d (add (scale alpha zero) (scale beta one)) = [[p0], [p1]]"
    using assms by (simp add: add_def scale_def zero_def one_def)
  have bell: "normalize_2d (add (np_kron zero zero) (np_kron one one)) = [[r2], [0], [0], [r2]]"
    using bell_eq by (simp add: add_def zero_def one_def np_kron_def kron_row_def)
  show ?thesis
    by (simp add: initialize_def Let_def bind_def psi bell) (simp add: np_kron_def kron_row_def)
qed

lemma normalize_2d_column:
  "\<exists>p0 p1. normalize_2d [[a], [b]] = [[p0], [p1]] \<and>
     (cmod p0)\<^sup>2 + (cmod p1)\<^sup>2 = (if a = 0 \<and> b = 0 then 0 else 1)"
proof (cases "linalg_norm (concat [[a], [b]]) = 0")
  case True
  then have "a = 0 \<and> b = 0"
    by (simp add: linalg_norm_zero_iff)
  then show ?thesis
    by (simp add: normalize_2d_def linalg_norm_def)
next
  case False
  then have nz: "\<not> (a = 0 \<and> b = 0)"
    by (auto simp: linalg_norm_def)
  from linalg_norm_normalize_2d [OF False]
  have "linalg_norm (concat (normalize_2d [[a], [b]])) = 1" .
  moreover obtain p0 p1 where p: "normalize_2d [[a], [b]] = [[p0], [p1]]"
    by (cases "linalg_norm [a, b] = 0") (simp_all add: normalize_2d_def Let_def)
  ultimately have "(cmod p0)\<^sup>2 + (cmod p1)\<^sup>2 = 1"
    by (simp add: linalg_norm_def)
  with p nz show ?thesis by auto
qed

lemma three_qubit_cases:
  assumes "three_qubit st"
  obtains (Vec) a0 a1 a2 a3 a4 a5 a6 a7 where "st = Vec [a0, a1, a2, a3, a4, a5, a6, a7]"
    | (Mat) a0 a1 a2 a3 a4 a5 a6 a7 where "st = Mat [[a0], [a1], [a2], [a3], [a4], [a5], [a6], [a7]]"
proof (cases st)
  case (Vec v)
  with assms have "length v = 8" by simp
  then obtain a0 a1 a2 a3 a4 a5 a6 a7 where "v = [a0, a1, a2, a3, a4, a5, a6, a7]"
    by (rule length8_obtain)
  with Vec that(1) show ?thesis by simp
next
  case (Mat m)
  with assms have len: "length m = 8" and rows: "list_all (\<lambda>r. length r = 1) m" by simp_all
  from len obtain q0 q1 q2 q3 q4 q5 q6 q7 where m: "m = [q0, q1, q2, q3, q4, q5, q6, q7]"
    by (rule length8_obtain)
  have one: "length r = 1 \<Longrightarrow> \<exists>a. r = [a]" for r :: "complex list"
    by (cases r) auto
  from rows m have "length q0 = 1" "length q1 = 1" "length q2 = 1" "length q3 = 1"
    "length q4 = 1" "length q5 = 1" "length q6 = 1" "length q7 = 1"
    by simp_all
  then obtain a0 a1 a2 a3 a4 a5 a6 a7 where
    "q0 = [a0]" "q1 = [a1]" "q2 = [a2]" "q3 = [a3]" "q4 = [a4]" "q5 = [a5]" "q6 = [a6]" "q7 = [a7]"
    using one by metis
  with Mat m that(2) show ?thesis by simp
qed

section \<open>The steps on a state of three qubits\<close>

lemma cmod_r2_mult: "(cmod (r2 * z))\<^sup>2 = (cmod z)\<^sup>2 / 2"
  by (simp add: norm_mult power_mult_distrib cmod_r2_square)

lemma parallelogram_r2:
  "(cmod (r2 * (x + y)))\<^sup>2 + (cmod (r2 * (x - y)))\<^sup>2 = (cmod x)\<^sup>2 + (cmod y)\<^sup>2"
proof -
  have "(cmod (x + y))\<^sup>2 + (cmod (x - y))\<^sup>2 = 2 * ((cmod x)\<^sup>2 + (cmod y)\<^sup>2)"
    by (simp add: cmod_power2) (simp add: power2_eq_square algebra_simps)
  then show ?thesis
    unfolding cmod_r2_mult by argo
qed

lemma alice_norm:
  "linalg_norm [r2 * (a0 + a6), r2 * (a1 + a7), r2 * (a2 + a4), r2 * (a3 + a5),
                r2 * (a0 - a6), r2 * (a1 - a7), r2 * (a2 - a4), r2 * (a3 - a5)] =
   linalg_norm [a0, a1, a2, a3, a4, a5, a6, a7]"
proof -
  have "(\<Sum>z\<leftarrow>[r2 * (a0 + a6), r2 * (a1 + a7), r2 * (a2 + a4), r2 * (a3 + a5),
                r2 * (a0 - a6), r2 * (a1 - a7), r2 * (a2 - a4), r2 * (a3 - a5)]. (cmod z)\<^sup>2) =
        (\<Sum>z\<leftarrow>[a0, a1, a2, a3, a4, a5, a6, a7]. (cmod z)\<^sup>2)"
    using parallelogram_r2 [of a0 a6] parallelogram_r2 [of a1 a7]
      parallelogram_r2 [of a2 a4] parallelogram_r2 [of a3 a5]
    by (simp only: list.map sum_list.Cons sum_list.Nil)
  then show ?thesis by (simp only: linalg_norm_def)
qed

lemma alice_ops_three_qubit:
  assumes "state s = Some st" and "three_qubit st"
  shows "\<exists>st'. alice_ops s = (s\<lparr>state := Some st'\<rparr>, Inr AliceApplied) \<and> three_qubit st' \<and>
           linalg_norm (flatten st') = linalg_norm (flatten st)"
  using assms(2)
proof (cases rule: three_qubit_cases)
  case (Vec a0 a1 a2 a3 a4 a5 a6 a7)
  let ?st' = "Vec [r2 * (a0 + a6), r2 * (a1 + a7), r2 * (a2 + a4), r2 * (a3 + a5),
                   r2 * (a0 - a6), r2 * (a1 - a7), r2 * (a2 - a4), r2 * (a3 - a5)]"
  from Vec assms(1) have "alice_ops s = (s\<lparr>state := Some ?st'\<rparr>, Inr AliceApplied)"
    by (simp add: alice_ops_Vec8)
  moreover have "three_qubit ?st'" by simp
  moreover have "linalg_norm (flatten ?st') = linalg_norm (flatten st)"
    using Vec alice_norm [of a0 a6 a1 a7 a2 a4 a3 a5] by simp
  ultimately show ?thesis by blast
next
  case (Mat a0 a1 a2 a3 a4 a5 a6 a7)
  let ?st' = "Mat [[r2 * (a0 + a6)], [r2 * (a1 + a7)], [r2 * (a2 + a4)], [r2 * (a3 + a5)],
                   [r2 * (a0 - a6)], [r2 * (a1 - a7)], [r2 * (a2 - a4)], [r2 * (a3 - a5)]]"
  from Mat assms(1) have "alice_ops s = (s\<lparr>state := Some ?st'\<rparr>, Inr AliceApplied)"
    by (simp add: alice_ops_Mat8)
  moreover have "three_qubit ?st'" by simp
  moreover have "linalg_norm (flatten ?st') = linalg_norm (flatten st)"
    using Mat alice_norm [of a0 a6 a1 a7 a2 a4 a3 a5] by simp
  ultimately show ?thesis by blast
qed

lemma bob_correction_Vec8:
  assumes "state s = Some (Vec [a0, a1, a2, a3, a4, a5, a6, a7])"
    and "alice_result s = Some ab"
    and "correction_for ab = Inr [[c00, c01], [c10, c11]]"
  shows "bob_correction s =
     (s\<lparr>state := Some (Vec [c00 * a0 + c01 * a1, c10 * a0 + c11 * a1,
                             c00 * a2 + c01 * a3, c10 * a2 + c11 * a3,
                             c00 * a4 + c01 * a5, c10 * a4 + c11 * a5,
                             c00 * a6 + c01 * a7, c10 * a6 + c11 * a7])\<rparr>,
      Inr (BobFinal (normalize_2d [[c00 * a6 + c01 * a7], [c10 * a6 + c11 * a7]]) (psi s)))"
proof -
  have "bind (correction_for ab)
          (\<lambda>correction. bind (kron [I, I, correction])
             (\<lambda>U_corr. matmul U_corr (Vec [a0, a1, a2, a3, a4, a5, a6, a7]))) =
        Inr (Vec [c00 * a0 + c01 * a1, c10 * a0 + c11 * a1,
                  c00 * a2 + c01 * a3, c10 * a2 + c11 * a3,
                  c00 * a4 + c01 * a5, c10 * a4 + c11 * a5,
                  c00 * a6 + c01 * a7, c10 * a6 + c11 * a7])"
    unfolding assms(3) using apply_U_corr_Vec8 [of c00 c01 c10 c11 a0 a1 a2 a3 a4 a5 a6 a7]
    by (simp add: bind_def)
  then show ?thesis
    unfolding bob_correction_def assms(1,2) by (simp add: reshape_2_1_def)
qed

lemma bob_correction_Mat8:
  assumes "state s = Some (Mat [[a0], [a1], [a2], [a3], [a4], [a5], [a6], [a7]])"
    and "alice_result s = Some ab"
    and "correction_for ab = Inr [[c00, c01], [c10, c11]]"
  shows "bob_correction s =
     (s\<lparr>state := Some (Mat [[c00 * a0 + c01 * a1], [c10 * a0 + c11 * a1],
                             [c00 * a2 + c01 * a3], [c10 * a2 + c11 * a3],
                             [c00 * a4 + c01 * a5], [c10 * a4 + c11 * a5],
                             [c00 * a6 + c01 * a7], [c10 * a6 + c11 * a7]])\<rparr>,
      Inr (BobFinal (normalize_2d [[c00 * a6 + c01 * a7], [c10 * a6 + c11 * a7]]) (psi s)))"
proof -
  have "bind (correction_for ab)
          (\<lambda>correction. bind (kron [I, I, correction])
             (\<lambda>U_corr. matmul U_corr (Mat [[a0], [a1], [a2], [a3], [a4], [a5], [a6], [a7]]))) =
        Inr (Mat [[c00 * a0 + c01 * a1], [c10 * a0 + c11 * a1],
                  [c00 * a2 + c01 * a3], [c10 * a2 + c11 * a3],
                  [c00 * a4 + c01 * a5], [c10 * a4 + c11 * a5],
                  [c00 * a6 + c01 * a7], [c10 * a6 + c11 * a7]])"
    unfolding assms(3) using apply_U_corr_Mat8 [of c00 c01 c10 c11 a0 a1 a2 a3 a4 a5 a6 a7]
    by (simp add: bind_def)
  then show ?thesis
    unfolding bob_correction_def assms(1,2) by (simp add: reshape_2_1_def)
qed

lemma correction_for_cases:
  obtains "ab = (0, 0)" "correction_for ab = Inr I"
  | "ab = (0, 1)" "correction_for ab = Inr X"
  | "ab = (1, 0)" "correction_for ab = Inr Z"
  | "ab \<notin> {(0, 0), (0, 1), (1, 0)}" "correction_for ab = Inr [[0, 1], [- 1, 0]]"
  by (cases "ab = (0, 0)"; cases "ab = (0, 1)"; cases "ab = (1, 0)")
    (simp_all add: correction_for_def Z_after_X)

lemma correction_shape:
  "\<exists>c00 c01 c10 c11. correction_for ab = Inr [[c00, c01], [c10, c11]] \<and>
     (\<forall>x y. (cmod (c00 * x + c01 * y))\<^sup>2 + (cmod (c10 * x + c11 * y))\<^sup>2 =
            (cmod x)\<^sup>2 + (cmod y)\<^sup>2)"
  by (cases ab rule: correction_for_cases) (simp_all add: I_def X_def Z_def)

lemma correction_norm:
  assumes "\<forall>x y. (cmod (c00 * x + c01 * y))\<^sup>2 + (cmod (c10 * x + c11 * y))\<^sup>2 =
            (cmod x)\<^sup>2 + (cmod y)\<^sup>2"
  shows "linalg_norm [c00 * a0 + c01 * a1, c10 * a0 + c11 * a1,
                      c00 * a2 + c01 * a3, c10 * a2 + c11 * a3,
                      c00 * a4 + c01 * a5, c10 * a4 + c11 * a5,
                      c00 * a6 + c01 * a7, c10 * a6 + c11 * a7] =
         linalg_norm [a0, a1, a2, a3, a4, a5, a6, a7]"
proof -
  have "(\<Sum>z\<leftarrow>[c00 * a0 + c01 * a1, c10 * a0 + c11 * a1,
                      c00 * a2 + c01 * a3, c10 * a2 + c11 * a3,
                      c00 * a4 + c01 * a5, c10 * a4 + c11 * a5,
                      c00 * a6 + c01 * a7, c10 * a6 + c11 * a7]. (cmod z)\<^sup>2) =
        (\<Sum>z\<leftarrow>[a0, a1, a2, a3, a4, a5, a6, a7]. (cmod z)\<^sup>2)"
    using assms [rule_format, of a0 a1] assms [rule_format, of a2 a3]
      assms [rule_format, of a4 a5] assms [rule_format, of a6 a7]
    unfolding list.map sum_list.Cons sum_list.Nil by argo
  then show ?thesis by (simp only: linalg_norm_def)
qed

lemma bob_correction_three_qubit:
  assumes "state s = Some st" and "three_qubit st" and "alice_result s = Some ab"
  shows "\<exists>st' q. bob_correction s = (s\<lparr>state := Some st'\<rparr>, Inr (BobFinal q (psi s))) \<and>
           three_qubit st' \<and> linalg_norm (flatten st') = linalg_norm (flatten st)"
proof -
  obtain c00 c01 c10 c11 where c: "correction_for ab = Inr [[c00, c01], [c10, c11]]"
    and u: "\<forall>x y. (cmod (c00 * x + c01 * y))\<^sup>2 + (cmod (c10 * x + c11 * y))\<^sup>2 =
            (cmod x)\<^sup>2 + (cmod y)\<^sup>2"
    using correction_shape by blast
  from assms(2) show ?thesis
  proof (cases rule: three_qubit_cases)
    case (Vec a0 a1 a2 a3 a4 a5 a6 a7)
    let ?st' = "Vec [c00 * a0 + c01 * a1, c10 * a0 + c11 * a1,
                             c00 * a2 + c01 * a3, c10 * a2 + c11 * a3,
                             c00 * a4 + c01 * a5, c10 * a4 + c11 * a5,
                             c00 * a6 + c01 * a7, c10 * a6 + c11 * a7]"
    from Vec assms(1) have "state s = Some (Vec [a0, a1, a2, a3, a4, a5, a6, a7])" by simp
    note bob_correction_Vec8 [OF this assms(3) c]
    moreover have "three_qubit ?st'" by simp
    moreover have "linalg_norm (flatten ?st') = linalg_norm (flatten st)"
      using Vec correction_norm [OF u, of a0 a1 a2 a3 a4 a5 a6 a7] by simp
    ultimately show ?thesis by blast
  next
    case (Mat a0 a1 a2 a3 a4 a5 a6 a7)
    let ?st' = "Mat [[c00 * a0 + c01 * a1], [c10 * a0 + c11 * a1],
                             [c00 * a2 + c01 * a3], [c10 * a2 + c11 * a3],
                             [c00 * a4 + c01 * a5], [c10 * a4 + c11 * a5],
                             [c00 * a6 + c01 * a7], [c10 * a6 + c11 * a7]]"
    from Mat assms(1) have "state s = Some (Mat [[a0], [a1], [a2], [a3], [a4], [a5], [a6], [a7]])"
      by simp
    note bob_correction_Mat8 [OF this assms(3) c]
    moreover have "three_qubit ?st'" by simp
    moreover have "linalg_norm (flatten ?st') = linalg_norm (flatten st)"
      using Mat correction_norm [OF u, of a0 a1 a2 a3 a4 a5 a6 a7] by simp
    ultimately show ?thesis by blast
  qed
qed

lemma three_qubit_length: "three_qubit st \<Longrightarrow> length (flatten st) = 8"
  by (erule three_qubit_cases) simp_all

lemma length_normalize_1d: "length (normalize_1d v) = length v"
  by (simp add: normalize_1d_def Let_def)

lemma measure_step_three_qubit:
  assumes "state s = Some st" and "three_qubit st" and "linalg_norm (flatten st) \<noteq> 0"
    and "0 \<le> u" and "u < 1"
  shows "\<exists>ab v. measure_step u s =
            (s\<lparr>alice_result := Some ab, state := Some (Vec v)\<rparr>, Inr (MeasureResult ab)) \<and>
           ab \<in> set outcomes \<and> length v = 8 \<and> linalg_norm v = 1"
proof -
  let ?ab = "outcomes ! random_choice (distribution (flatten st)) u"
  let ?v = "normalize_1d (collapse (flatten st) ?ab)"
  note c = measure_two_qubits_collapse [OF three_qubit_length [OF assms(2)] assms(3-5)]
  from c have "measure_two_qubits u st = Inr (?ab, Vec ?v)" by blast
  with assms(1) have "measure_step u s =
      (s\<lparr>alice_result := Some ?ab, state := Some (Vec ?v)\<rparr>, Inr (MeasureResult ?ab))"
    by (simp add: measure_step_def)
  moreover from c have "?ab \<in> set outcomes" by simp
  moreover have "length ?v = 8" by (simp add: length_normalize_1d length_collapse)
  moreover from c have "linalg_norm ?v = 1" by blast
  ultimately show ?thesis by blast
qed

lemma cmod_mult_r2: "(cmod (z * r2))\<^sup>2 = (cmod z)\<^sup>2 / 2"
  using cmod_r2_mult [of z] by (simp add: mult.commute)

lemma initial_state_norm:
  "linalg_norm [p0 * r2, 0, 0, p0 * r2, p1 * r2, 0, 0, p1 * r2] = linalg_norm [p0, p1]"
  by (simp add: linalg_norm_def cmod_mult_r2)

lemma initialize_regular:
  assumes "\<not> (alpha = 0 \<and> beta = 0)"
  shows "\<exists>p0 p1. initialize (Some alpha) (Some beta) s =
           (s\<lparr>psi := Some [[p0], [p1]],
              state := Some (Mat [[p0 * r2], [0], [0], [p0 * r2],
                                  [p1 * r2], [0], [0], [p1 * r2]])\<rparr>,
            Inr (Initialized alpha beta [[p0], [p1]])) \<and>
           linalg_norm [p0, p1] = 1 \<and>
           linalg_norm [p0 * r2, 0, 0, p0 * r2, p1 * r2, 0, 0, p1 * r2] = 1"
proof -
  from normalize_2d_column [of alpha beta] assms
  obtain p0 p1 where p: "normalize_2d [[alpha], [beta]] = [[p0], [p1]]"
    and n: "(cmod p0)\<^sup>2 + (cmod p1)\<^sup>2 = 1"
    by auto
  from n have "linalg_norm [p0, p1] = 1"
    by (simp add: linalg_norm_def)
  with initialize_column [OF p, of s] initial_state_norm [of p0 p1] show ?thesis
    by auto
qed

lemma initialize_unparsed:
  "alpha_in = None \<or> beta_in = None \<Longrightarrow>
   initialize alpha_in beta_in s = (s, Inr (ShowError ''Invalid Input''))"
  by (auto simp: initialize_def split: option.splits)

lemma step_normalized:
  assumes "normalized s" and "regular p"
  shows "normalized (fst (step p s))"
proof (cases p)
  case (Initialize alpha_in beta_in)
  show ?thesis
  proof (cases "alpha_in = None \<or> beta_in = None")
    case True
    with Initialize assms(1) show ?thesis
      by (simp add: initialize_unparsed)
  next
    case False
    then obtain alpha beta where ab: "alpha_in = Some alpha" "beta_in = Some beta"
      by auto
    with Initialize assms(2) have "\<not> (alpha = 0 \<and> beta = 0)" by simp
    from initialize_regular [OF this, of s] Initialize ab show ?thesis
      by (auto simp: normalized_def)
  qed
next
  case AliceOps
  show ?thesis
  proof (cases "state s")
    case None
    with AliceOps assms(1) show ?thesis by (simp add: alice_ops_def)
  next
    case (Some st)
    with assms(1) have "three_qubit st" "linalg_norm (flatten st) = 1"
      by (simp_all add: normalized_def)
    with alice_ops_three_qubit [OF Some] AliceOps show ?thesis
      by (auto simp: normalized_def)
  qed
next
  case (Measure u)
  show ?thesis
  proof (cases "state s")
    case None
    with Measure assms(1) show ?thesis by (simp add: measure_step_def)
  next
    case (Some st)
    with assms(1) have st: "three_qubit st" "linalg_norm (flatten st) \<noteq> 0"
      by (simp_all add: normalized_def)
    from Measure assms(2) have u: "0 \<le> u" "u < 1" by simp_all
    from measure_step_three_qubit [OF Some st u] obtain ab v where
      "measure_step u s =
         (s\<lparr>alice_result := Some ab, state := Some (Vec v)\<rparr>, Inr (MeasureResult ab))"
      "length v = 8" "linalg_norm v = 1"
      by blast
    with Measure show ?thesis
      by (simp add: normalized_def)
  qed
next
  case BobCorrection
  show ?thesis
  proof (cases "state s")
    case None
    with BobCorrection assms(1) show ?thesis by (simp add: bob_correction_def)
  next
    case (Some st)
    show ?thesis
    proof (cases "alice_result s")
      case None
      with BobCorrection Some assms(1) show ?thesis by (simp add: bob_correction_def)
    next
      case (Some ab)
      from assms(1) \<open>state s = Some st\<close> have "three_qubit st" "linalg_norm (flatten st) = 1"
        by (simp_all add: normalized_def)
      with bob_correction_three_qubit [OF \<open>state s = Some st\<close> _ Some] BobCorrection show ?thesis
        by (auto simp: normalized_def)
    qed
  qed
qed

lemma run_Cons: "run (p # ops) s = run ops (fst (step p s))"
  by (simp add: run_def)

lemma run_normalized: "normalized s \<Longrightarrow> list_all regular ops \<Longrightarrow> normalized (run ops s)"
proof (induction ops arbitrary: s)
  case Nil
  then show ?case by (simp add: run_def)
next
  case (Cons p ops)
  then show ?case by (simp add: run_Cons step_normalized)
qed

lemma step_keeps_state: "state s \<noteq> None \<Longrightarrow> state (fst (step p s)) \<noteq> None"
  by (cases p)
    (auto simp: initialize_def alice_ops_def measure_step_def bob_correction_def Let_def
      split: option.splits sum.splits prod.splits)

lemma run_keeps_state: "state s \<noteq> None \<Longrightarrow> state (run ops s) \<noteq> None"
proof (induction ops arbitrary: s)
  case Nil
  then show ?case by (simp add: run_def)
next
  case (Cons p ops)
  from Cons.IH [OF step_keeps_state [OF Cons.prems]] show ?case
    by (simp add: run_Cons)
qed

section \<open>The protocol on the amplitudes 0.6 and 0.8\<close>

lemma psi_example: "normalize_2d [[3 / 5], [4 / 5]] = [[3 / 5], [4 / 5]]"
  by (rule normalize_2d_unit) (simp add: linalg_norm_def power2_eq_square)

lemma initialize_example:
  "initialize (Some (3 / 5)) (Some (4 / 5)) s =
     (s\<lparr>psi := Some [[3 / 5], [4 / 5]],
        state := Some (Mat [[3 / 5 * r2], [0], [0], [3 / 5 * r2],
                            [4 / 5 * r2], [0], [0], [4 / 5 * r2]])\<rparr>,
      Inr (Initialized (3 / 5) (4 / 5) [[3 / 5], [4 / 5]]))"
  by (rule initialize_column) (rule psi_example)

lemma r2_times: "r2 * (c * r2) = c / 2"
proof -
  have "r2 * (c * r2) = c * (r2 * r2)"
    by (simp only: ac_simps)
  then show ?thesis
    by (simp only: r2_square) simp
qed

lemma alice_ops_example:
  assumes "state s = Some (Mat [[3 / 5 * r2], [0], [0], [3 / 5 * r2],
                            [4 / 5 * r2], [0], [0], [4 / 5 * r2]])"
  shows "alice_ops s =
     (s\<lparr>state := Some (Mat [[3 / 10], [2 / 5], [2 / 5], [3 / 10],
                            [3 / 10], [- (2 / 5)], [- (2 / 5)], [3 / 10]])\<rparr>,
      Inr AliceApplied)"
  unfolding alice_ops_Mat8 [OF assms] by (simp add: r2_times)

lemma distribution_example:
  "distribution [3 / 10, 2 / 5, 2 / 5, 3 / 10, 3 / 10, - (2 / 5), - (2 / 5), 3 / 10] =
     [1 / 4, 1 / 4, 1 / 4, 1 / 4]"
  by (simp add: distribution_8 power2_eq_square)

lemma random_choice_example:
  "random_choice [1 / 4, 1 / 4, 1 / 4, 1 / 4] (1 / 10) = 0"
  "random_choice [1 / 4, 1 / 4, 1 / 4, 1 / 4] (3 / 10) = 1"
  "random_choice [1 / 4, 1 / 4, 1 / 4, 1 / 4] (3 / 5) = 2"
  "random_choice [1 / 4, 1 / 4, 1 / 4, 1 / 4] (9 / 10) = 3"
  by (simp_all add: random_choice_def)

lemma normalize_1d_example:
  "normalize_1d [3 / 10, 2 / 5, 0, 0, 0, 0, 0, 0] = [3 / 5, 4 / 5, 0, 0, 0, 0, 0, 0]"
  "normalize_1d [0, 0, 2 / 5, 3 / 10, 0, 0, 0, 0] = [0, 0, 4 / 5, 3 / 5, 0, 0, 0, 0]"
  "normalize_1d [0, 0, 0, 0, 3 / 10, - (2 / 5), 0, 0] = [0, 0, 0, 0, 3 / 5, - (4 / 5), 0, 0]"
  "normalize_1d [0, 0, 0, 0, 0, 0, - (2 / 5), 3 / 10] = [0, 0, 0, 0, 0, 0, - (4 / 5), 3 / 5]"
  by (simp_all add: normalize_1d_def linalg_norm_def power2_eq_square sqrt_quarter)

lemma measure_example:
  assumes k: "random_choice [1 / 4, 1 / 4, 1 / 4, 1 / 4] u = k" and k4: "k < 4"
    and st: "state s = Some (Mat [[3 / 10], [2 / 5], [2 / 5], [3 / 10],
                            [3 / 10], [- (2 / 5)], [- (2 / 5)], [3 / 10]])"
  shows "measure_step u s =
      (s\<lparr>alice_result := Some (outcomes ! k),
         state := Some (Vec (normalize_1d (collapse
           [3 / 10, 2 / 5, 2 / 5, 3 / 10, 3 / 10, - (2 / 5), - (2 / 5), 3 / 10] (outcomes ! k))))\<rparr>,
       Inr (MeasureResult (outcomes ! k)))"
proof -
  have "measure_two_qubits u (Mat [[3 / 10], [2 / 5], [2 / 5], [3 / 10],
                            [3 / 10], [- (2 / 5)], [- (2 / 5)], [3 / 10]]) =
    Inr (outcomes ! k, Vec (normalize_1d (collapse
           [3 / 10, 2 / 5, 2 / 5, 3 / 10, 3 / 10, - (2 / 5), - (2 / 5), 3 / 10] (outcomes ! k))))"
    by (rule measure_two_qubits_8 [where t = 1, OF _ _ _ _ k4])
      (use k in \<open>simp_all add: power2_eq_square\<close>)
  then show ?thesis
    by (simp add: measure_step_def st)
qed

lemma after_alice_example:
  "fst (alice_ops (fst (initialize (Some (3 / 5)) (Some (4 / 5)) start))) =
     \<lparr>state = Some (Mat [[3 / 10], [2 / 5], [2 / 5], [3 / 10],
                         [3 / 10], [- (2 / 5)], [- (2 / 5)], [3 / 10]]),
      psi = Some [[3 / 5], [4 / 5]], alice_result = None\<rparr>"
  by (simp add: initialize_example alice_ops_example start_def)

lemma after_measure_example:
  assumes "random_choice [1 / 4, 1 / 4, 1 / 4, 1 / 4] u = k" and "k < 4"
  shows "fst (measure_step u (fst (alice_ops (fst (initialize (Some (3 / 5)) (Some (4 / 5)) start))))) =
     \<lparr>state = Some (Vec (normalize_1d (collapse
           [3 / 10, 2 / 5, 2 / 5, 3 / 10, 3 / 10, - (2 / 5), - (2 / 5), 3 / 10] (outcomes ! k)))),
      psi = Some [[3 / 5], [4 / 5]], alice_result = Some (outcomes ! k)\<rparr>"
  unfolding after_alice_example by (subst measure_example [OF assms]) simp_all

lemma normalize_2d_zero_column: "normalize_2d [[0], [0]] = [[0], [0]]"
  by (simp add: normalize_2d_def linalg_norm_def)

lemma less_4: "(0::nat) < 4" "(1::nat) < 4" "(2::nat) < 4" "(3::nat) < 4"
  by simp_all

lemma teleport_00:
  "teleport (3 / 5) (4 / 5) (1 / 10) =
     (\<lparr>state = Some (Vec [3 / 5, 4 / 5, 0, 0, 0, 0, 0, 0]),
       psi = Some [[3 / 5], [4 / 5]], alice_result = Some (0, 0)\<rparr>,
      Inr (BobFinal [[0], [0]] (Some [[3 / 5], [4 / 5]])))"
proof -
  let ?s = "\<lparr>state = Some (Vec [3 / 5, 4 / 5, 0, 0, 0, 0, 0, 0]),
             psi = Some [[3 / 5], [4 / 5]], alice_result = Some (0, 0)\<rparr>"
  have m: "fst (measure_step (1 / 10) (fst (alice_ops
             (fst (initialize (Some (3 / 5)) (Some (4 / 5)) start))))) = ?s"
    unfolding after_measure_example [OF random_choice_example(1) less_4(1)]
      outcomes_nth collapse_8 normalize_1d_example ..
  have "bob_correction ?s =
     (\<lparr>state = Some (Vec [3 / 5, 4 / 5, 0, 0, 0, 0, 0, 0]),
       psi = Some [[3 / 5], [4 / 5]], alice_result = Some (0, 0)\<rparr>,
      Inr (BobFinal [[0], [0]] (Some [[3 / 5], [4 / 5]])))"
    using bob_correction_Vec8 [of ?s "3 / 5" "4 / 5" 0 0 0 0 0 0 "(0, 0)" 1 0 0 1]
      correction_for_outcomes(1)
    by (simp add: normalize_2d_zero_column)
  with m show ?thesis
    by (simp add: teleport_def)
qed

lemma teleport_01:
  "teleport (3 / 5) (4 / 5) (3 / 10) =
     (\<lparr>state = Some (Vec [0, 0, 3 / 5, 4 / 5, 0, 0, 0, 0]),
       psi = Some [[3 / 5], [4 / 5]], alice_result = Some (0, 1)\<rparr>,
      Inr (BobFinal [[0], [0]] (Some [[3 / 5], [4 / 5]])))"
proof -
  let ?s = "\<lparr>state = Some (Vec [0, 0, 4 / 5, 3 / 5, 0, 0, 0, 0]),
             psi = Some [[3 / 5], [4 / 5]], alice_result = Some (0, 1)\<rparr>"
  have m: "fst (measure_step (3 / 10) (fst (alice_ops
             (fst (initialize (Some (3 / 5)) (Some (4 / 5)) start))))) = ?s"
    unfolding after_measure_example [OF random_choice_example(2) less_4(2)]
      outcomes_nth collapse_8 normalize_1d_example ..
  have "bob_correction ?s =
     (\<lparr>state = Some (Vec [0, 0, 3 / 5, 4 / 5, 0, 0, 0, 0]),
       psi = Some [[3 / 5], [4 / 5]], alice_result = Some (0, 1)\<rparr>,
      Inr (BobFinal [[0], [0]] (Some [[3 / 5], [4 / 5]])))"
    using bob_correction_Vec8 [of ?s 0 0 "4 / 5" "3 / 5" 0 0 0 0 "(0, 1)" 0 1 1 0]
      correction_for_outcomes(2)
    by (simp add: normalize_2d_zero_column)
  with m show ?thesis
    by (simp add: teleport_def)
qed

lemma teleport_10:
  "teleport (3 / 5) (4 / 5) (3 / 5) =
     (\<lparr>state = Some (Vec [0, 0, 0, 0, 3 / 5, 4 / 5, 0, 0]),
       psi = Some [[3 / 5], [4 / 5]], alice_result = Some (1, 0)\<rparr>,
      Inr (BobFinal [[0], [0]] (Some [[3 / 5], [4 / 5]])))"
proof -
  let ?s = "\<lparr>state = Some (Vec [0, 0, 0, 0, 3 / 5, - (4 / 5), 0, 0]),
             psi = Some [[3 / 5], [4 / 5]], alice_result = Some (1, 0)\<rparr>"
  have m: "fst (measure_step (3 / 5) (fst (alice_ops
             (fst (initialize (Some (3 / 5)) (Some (4 / 5)) start))))) = ?s"
    unfolding after_measure_example [OF random_choice_example(3) less_4(3)]
      outcomes_nth collapse_8 normalize_1d_example ..
  have "bob_correction ?s =
     (\<lparr>state = Some (Vec [0, 0, 0, 0, 3 / 5, 4 / 5, 0, 0]),
       psi = Some [[3 / 5], [4 / 5]], alice_result = Some (1, 0)\<rparr>,
      Inr (BobFinal [[0], [0]] (Some [[3 / 5], [4 / 5]])))"
    using bob_correction_Vec8 [of ?s 0 0 0 0 "3 / 5" "- (4 / 5)" 0 0 "(1, 0)" 1 0 0 "- 1"]
      correction_for_outcomes(3)
    by (simp add: normalize_2d_zero_column)
  with m show ?thesis
    by (simp add: teleport_def)
qed

lemma teleport_11:
  "teleport (3 / 5) (4 / 5) (9 / 10) =
     (\<lparr>state = Some (Vec [0, 0, 0, 0, 0, 0, 3 / 5, 4 / 5]),
       psi = Some [[3 / 5], [4 / 5]], alice_result = Some (1, 1)\<rparr>,
      Inr (BobFinal [[3 / 5], [4 / 5]] (Some [[3 / 5], [4 / 5]])))"
proof -
  let ?s = "\<lparr>state = Some (Vec [0, 0, 0, 0, 0, 0, - (4 / 5), 3 / 5]),
             psi = Some [[3 / 5], [4 / 5]], alice_result = Some (1, 1)\<rparr>"
  have m: "fst (measure_step (9 / 10) (fst (alice_ops
             (fst (initialize (Some (3 / 5)) (Some (4 / 5)) start))))) = ?s"
    unfolding after_measure_example [OF random_choice_example(4) less_4(4)]
      outcomes_nth collapse_8 normalize_1d_example ..
  have "bob_correction ?s =
     (\<lparr>state = Some (Vec [0, 0, 0, 0, 0, 0, 3 / 5, 4 / 5]),
       psi = Some [[3 / 5], [4 / 5]], alice_result = Some (1, 1)\<rparr>,
      Inr (BobFinal [[3 / 5], [4 / 5]] (Some [[3 / 5], [4 / 5]])))"
    using bob_correction_Vec8 [of ?s 0 0 0 0 0 0 "- (4 / 5)" "3 / 5" "(1, 1)" 0 1 "- 1" 0]
      correction_for_outcomes(4)
    by (simp add: psi_example)
  with m show ?thesis
    by (simp add: teleport_def)
qed

lemma zero_not_up_to_phase: "\<not> up_to_phase [[0], [0]] [[3 / 5], [4 / 5]]"
  by (auto simp: up_to_phase_def scale_def)

section \<open>The claims on the protocol\<close>

lemma guards:
  "state s = None \<Longrightarrow> alice_ops s = (s, Inr (ShowInfo ''Please initialize first.''))"
  "state s = None \<Longrightarrow>
     measure_step u s = (s, Inr (ShowInfo ''Initialize and run Alice's operations first.''))"
  "state s = None \<or> alice_result s = None \<Longrightarrow>
     bob_correction s = (s, Inr (ShowInfo ''Run previous steps first.''))"
  by (auto simp: alice_ops_def measure_step_def bob_correction_def split: option.splits)

text \<open>
  C1: the end-to-end run on the amplitudes 0.6 and 0.8, with the uniform sample fixed to
  0.1, 0.3, 0.6 and 0.9 so that the draw is (0, 0), (0, 1), (1, 0) and (1, 1) in turn.
  After Bob's correction the state holds the amplitudes 0.6 and 0.8 of \<open>psi\<close> in the two
  slots of the measured outcome. \<open>bob_correction\<close> reads Bob's qubit from \<open>state[-2:]\<close>, the
  slots of the outcome (1, 1): for that outcome it reports \<open>psi\<close>, for the three others it
  reports the zero vector, which is not \<open>psi\<close> up to a global phase.
\<close>

theorem teleport_reads_last_two_slots:
  "teleport (3 / 5) (4 / 5) (1 / 10) =
     (\<lparr>state = Some (Vec [3 / 5, 4 / 5, 0, 0, 0, 0, 0, 0]),
       psi = Some [[3 / 5], [4 / 5]], alice_result = Some (0, 0)\<rparr>,
      Inr (BobFinal [[0], [0]] (Some [[3 / 5], [4 / 5]]))) \<and>
   teleport (3 / 5) (4 / 5) (3 / 10) =
     (\<lparr>state = Some (Vec [0, 0, 3 / 5, 4 / 5, 0, 0, 0, 0]),
       psi = Some [[3 / 5], [4 / 5]], alice_result = Some (0, 1)\<rparr>,
      Inr (BobFinal [[0], [0]] (Some [[3 / 5], [4 / 5]]))) \<and>
   teleport (3 / 5) (4 / 5) (3 / 5) =
     (\<lparr>state = Some (Vec [0, 0, 0, 0, 3 / 5, 4 / 5, 0, 0]),
       psi = Some [[3 / 5], [4 / 5]], alice_result = Some (1, 0)\<rparr>,
      Inr (BobFinal [[0], [0]] (Some [[3 / 5], [4 / 5]]))) \<and>
   teleport (3 / 5) (4 / 5) (9 / 10) =
     (\<lparr>state = Some (Vec [0, 0, 0, 0, 0, 0, 3 / 5, 4 / 5]),
       psi = Some [[3 / 5], [4 / 5]], alice_result = Some (1, 1)\<rparr>,
      Inr (BobFinal [[3 / 5], [4 / 5]] (Some [[3 / 5], [4 / 5]]))) \<and>
   \<not> up_to_phase [[0], [0]] [[3 / 5], [4 / 5]]"
  using teleport_00 teleport_01 teleport_10 teleport_11 zero_not_up_to_phase
  by (intro conjI)

lemma normalize_2d_first_column:
  "0 < c \<Longrightarrow> normalize_2d [[complex_of_real c * r2], [0]] = [[1], [0]]"
proof -
  assume c: "0 < c"
  have "complex_of_real c * r2 = complex_of_real (c / sqrt 2)"
    by (simp add: r2_def)
  moreover have "linalg_norm [complex_of_real (c / sqrt 2), 0] = c / sqrt 2"
    using c by (simp add: linalg_norm_def norm_divide)
  ultimately show ?thesis
    using c by (simp add: normalize_2d_def)
qed

lemma bob_after_reinitialize:
  "bob_correction
     (fst (initialize (Some (3 / 5)) (Some (4 / 5)) (fst (teleport (3 / 5) (4 / 5) (3 / 10))))) =
   (\<lparr>state = Some (Mat [[0], [3 / 5 * r2], [3 / 5 * r2], [0], [0], [4 / 5 * r2], [4 / 5 * r2], [0]]),
     psi = Some [[3 / 5], [4 / 5]], alice_result = Some (0, 1)\<rparr>,
    Inr (BobFinal [[1], [0]] (Some [[3 / 5], [4 / 5]])))"
proof -
  let ?s = "\<lparr>state = Some (Mat [[3 / 5 * r2], [0], [0], [3 / 5 * r2],
                            [4 / 5 * r2], [0], [0], [4 / 5 * r2]]),
     psi = Some [[3 / 5], [4 / 5]], alice_result = Some (0, 1)\<rparr>"
  have s: "fst (initialize (Some (3 / 5)) (Some (4 / 5)) (fst (teleport (3 / 5) (4 / 5) (3 / 10)))) = ?s"
    by (simp add: teleport_01 initialize_example)
  have "normalize_2d [[complex_of_real (4 / 5) * r2], [0]] = [[1], [0]]"
    by (rule normalize_2d_first_column) simp
  then have n: "normalize_2d [[4 * r2 / 5], [0]] = [[1], [0]]"
    by simp
  show ?thesis
    unfolding s
    using bob_correction_Mat8 [of ?s "3 / 5 * r2" 0 0 "3 / 5 * r2" "4 / 5 * r2" 0 0 "4 / 5 * r2"
        "(0, 1)" 0 1 1 0] correction_for_outcomes(2)
    by (simp add: n)
qed

lemma normalize_1d_first:
  "0 < c \<Longrightarrow> normalize_1d [complex_of_real c * r2, 0, 0, 0, 0, 0, 0, 0] = [1, 0, 0, 0, 0, 0, 0, 0]"
proof -
  assume c: "0 < c"
  have "complex_of_real c * r2 = complex_of_real (c / sqrt 2)"
    by (simp add: r2_def)
  moreover have "linalg_norm [complex_of_real (c / sqrt 2), 0, 0, 0, 0, 0, 0, 0] = c / sqrt 2"
    using c by (simp add: linalg_norm_def norm_divide)
  ultimately show ?thesis
    using c by (simp add: normalize_1d_def)
qed

lemma measure_initialized_example:
  "measure_step (1 / 10) (fst (initialize (Some (3 / 5)) (Some (4 / 5)) start)) =
     (\<lparr>state = Some (Vec [1, 0, 0, 0, 0, 0, 0, 0]),
       psi = Some [[3 / 5], [4 / 5]], alice_result = Some (0, 0)\<rparr>,
      Inr (MeasureResult (0, 0)))"
proof -
  let ?st = "Mat [[3 / 5 * r2], [0], [0], [3 / 5 * r2], [4 / 5 * r2], [0], [0], [4 / 5 * r2]]"
  have k: "random_choice [9 / 50, 9 / 50, 8 / 25, 8 / 25] (1 / 10) = 0"
    by (simp add: random_choice_def)
  have "measure_two_qubits (1 / 10) ?st =
      Inr (outcomes ! 0, Vec (normalize_1d (collapse
        [3 / 5 * r2, 0, 0, 3 / 5 * r2, 4 / 5 * r2, 0, 0, 4 / 5 * r2] (outcomes ! 0))))"
    by (rule measure_two_qubits_8 [where t = 1])
      (simp_all add: cmod_mult_r2 norm_mult norm_divide power_mult_distrib power_divide
        cmod_r2_square k)
  moreover have "normalize_1d [complex_of_real (3 / 5) * r2, 0, 0, 0, 0, 0, 0, 0] =
      [1, 0, 0, 0, 0, 0, 0, 0]"
    by (rule normalize_1d_first) simp
  then have "normalize_1d [3 / 5 * r2, 0, 0, 0, 0, 0, 0, 0] = [1, 0, 0, 0, 0, 0, 0, 0]"
    by simp
  ultimately have "measure_two_qubits (1 / 10) ?st = Inr ((0, 0), Vec [1, 0, 0, 0, 0, 0, 0, 0])"
    unfolding outcomes_nth collapse_8 by simp
  then show ?thesis
    by (simp add: measure_step_def initialize_example start_def)
qed

lemma initialize_zero:
  "initialize (Some 0) (Some 0) s =
     (s\<lparr>psi := Some [[0], [0]],
        state := Some (Mat [[0], [0], [0], [0], [0], [0], [0], [0]])\<rparr>,
      Inr (Initialized 0 0 [[0], [0]]))"
  using initialize_column [OF normalize_2d_zero_column, of s] by simp

text \<open>
  C5, counterexample: 0 and 0 parse as complex numbers, and after \<open>initialize\<close> on them
  \<open>psi\<close> and the composite state are all zeros, of norm 0: \<open>normalize\<close> returns a vector of
  norm 0 unchanged.
\<close>

theorem zero_amplitudes_norm_zero:
  "initialize (Some 0) (Some 0) start =
     (\<lparr>state = Some (Mat [[0], [0], [0], [0], [0], [0], [0], [0]]),
       psi = Some [[0], [0]], alice_result = None\<rparr>,
      Inr (Initialized 0 0 [[0], [0]])) \<and>
   linalg_norm (concat [[0], [0]]) = 0 \<and>
   linalg_norm (flatten (Mat [[0], [0], [0], [0], [0], [0], [0], [0]])) = 0"
  by (simp add: initialize_zero start_def linalg_norm_def)

text \<open>
  C5, as amended: for all amplitudes that are not both zero, after \<open>initialize\<close> the stored
  \<open>psi\<close> and the composite state of eight amplitudes have Euclidean norm 1, from any
  session; and the composite state still has norm 1 after every later sequence of
  presses in which no initialization enters zero for both amplitudes and every
  measurement draws its sample from the range of the random source.
\<close>

theorem unit_norm_invariant:
  fixes s :: session
  assumes "\<not> (alpha = 0 \<and> beta = 0)" and "list_all regular ops"
  defines "s1 \<equiv> fst (initialize (Some alpha) (Some beta) s)"
  shows "(\<exists>p. psi s1 = Some p \<and> linalg_norm (concat p) = 1) \<and>
         (\<exists>st. state s1 = Some st \<and> three_qubit st \<and> linalg_norm (flatten st) = 1) \<and>
         (\<exists>st. state (run ops s1) = Some st \<and> three_qubit st \<and> linalg_norm (flatten st) = 1)"
proof -
  from initialize_regular [OF assms(1), of s] obtain p0 p1 where
    i: "s1 = s\<lparr>psi := Some [[p0], [p1]],
              state := Some (Mat [[p0 * r2], [0], [0], [p0 * r2],
                                  [p1 * r2], [0], [0], [p1 * r2]])\<rparr>"
    and p: "linalg_norm [p0, p1] = 1"
    and st: "linalg_norm [p0 * r2, 0, 0, p0 * r2, p1 * r2, 0, 0, p1 * r2] = 1"
    unfolding s1_def by auto
  from i p have a: "\<exists>p. psi s1 = Some p \<and> linalg_norm (concat p) = 1"
    by simp
  from i st have b: "\<exists>st. state s1 = Some st \<and> three_qubit st \<and> linalg_norm (flatten st) = 1"
    by simp
  then have "normalized s1"
    by (auto simp: normalized_def)
  from run_normalized [OF this assms(2)] have "normalized (run ops s1)" .
  moreover from b have "state (run ops s1) \<noteq> None"
    by (intro run_keeps_state) auto
  ultimately have "\<exists>st. state (run ops s1) = Some st \<and> three_qubit st \<and> linalg_norm (flatten st) = 1"
    by (auto simp: normalized_def)
  with a b show ?thesis by blast
qed

text \<open>The theorem on 0.6 and 0.8, followed by the three other steps of the protocol.\<close>

theorem unit_norm_invariant_witness:
  "\<not> ((3 / 5 :: complex) = 0 \<and> (4 / 5 :: complex) = 0) \<and>
   list_all regular [AliceOps, Measure (3 / 5), BobCorrection] \<and>
   (\<exists>st. state (run [AliceOps, Measure (3 / 5), BobCorrection]
             (fst (initialize (Some (3 / 5)) (Some (4 / 5)) start))) = Some st \<and>
         three_qubit st \<and> linalg_norm (flatten st) = 1)"
proof -
  have h1: "\<not> ((3 / 5 :: complex) = 0 \<and> (4 / 5 :: complex) = 0)" by simp
  have h2: "list_all regular [AliceOps, Measure (3 / 5), BobCorrection]" by simp
  from unit_norm_invariant [OF h1 h2, of start] h1 h2 show ?thesis by blast
qed

lemma measure_two_qubits_zero:
  assumes "length (flatten st) = 8" and "linalg_norm (flatten st) = 0"
  shows "measure_two_qubits u st = Inl ValueError"
proof -
  from assms(1) obtain a0 a1 a2 a3 a4 a5 a6 a7
    where st: "flatten st = [a0, a1, a2, a3, a4, a5, a6, a7]"
    by (rule length8_obtain)
  with assms(2) have "sum_list [(cmod a0)\<^sup>2 + (cmod a1)\<^sup>2, (cmod a2)\<^sup>2 + (cmod a3)\<^sup>2,
    (cmod a4)\<^sup>2 + (cmod a5)\<^sup>2, (cmod a6)\<^sup>2 + (cmod a7)\<^sup>2] = 0"
    by (simp add: linalg_norm_zero_iff)
  then show ?thesis
    unfolding measure_two_qubits_def Let_def st outcome_sums_8 by simp
qed

text \<open>
  C7: 0 and 0 are accepted as amplitudes, so the session after \<open>initialize\<close> on them has a
  state, of eight zeros. \<open>measure\<close> on it does not succeed: the four group probabilities
  sum to 0, their renormalization divides zero by zero, the draw refuses the result, and
  \<open>ValueError\<close> escapes the step. The session is left as it was. \<open>normalize\<close> guards its
  own division by a norm of zero; the division of the group probabilities has no guard.
\<close>

theorem measure_zero_state_raises:
  "measure_step (1 / 2) (fst (initialize (Some 0) (Some 0) start)) =
     (\<lparr>state = Some (Mat [[0], [0], [0], [0], [0], [0], [0], [0]]),
       psi = Some [[0], [0]], alice_result = None\<rparr>,
      Inl ValueError)"
  by (simp add: initialize_zero start_def measure_step_def measure_two_qubits_zero
      linalg_norm_def)

lemma on_third_qubit_8:
  "on_third_qubit [[c00, c01], [c10, c11]] [a0, a1, a2, a3, a4, a5, a6, a7] =
     [c00 * a0 + c01 * a1, c10 * a0 + c11 * a1, c00 * a2 + c01 * a3, c10 * a2 + c11 * a3,
      c00 * a4 + c01 * a5, c10 * a4 + c11 * a5, c00 * a6 + c01 * a7, c10 * a6 + c11 * a7]"
  by (simp add: on_third_qubit_def upt_rec [of _ "numeral _"] upt_rec [of _ "Suc _"])

lemma correction_for_table: "correction_for ab = Inr (correction_table ab)"
  by (simp add: correction_for_def correction_table_def Z_after_X)

lemma correction_table_shape:
  "\<exists>c00 c01 c10 c11. correction_table ab = [[c00, c01], [c10, c11]]"
  by (simp add: correction_table_def I_def X_def Z_def)

text \<open>
  C6: on a state of three qubits with a recorded pair of bits, \<open>bob_correction\<close> picks the
  correction of the table (the pairs a measurement records are the four outcomes, so the
  last row is the pair (1, 1); its entry is the product \<open>Z @ X\<close>, which applies \<open>X\<close> first
  and \<open>Z\<close> after it), multiplies the state by \<open>kron(I, I, correction)\<close>, and the new state is
  the old one with the correction applied to the third qubit, pair by pair, for each
  value of qubits 0 and 1.
\<close>

theorem bob_correction_table:
  assumes st: "state s = Some st" and tq: "three_qubit st" and ar: "alice_result s = Some ab"
  shows "correction_for ab = Inr (correction_table ab) \<and>
         matmul_mm Z X = Inr [[0, 1], [- 1, 0]] \<and>
         kron [I, I, correction_table ab] = Inr (np_kron (np_kron I I) (correction_table ab)) \<and>
         (\<exists>st'. matmul (np_kron (np_kron I I) (correction_table ab)) st = Inr st' \<and>
            fst (bob_correction s) = s\<lparr>state := Some st'\<rparr> \<and>
            flatten st' = on_third_qubit (correction_table ab) (flatten st))"
proof -
  obtain c00 c01 c10 c11 where c: "correction_table ab = [[c00, c01], [c10, c11]]"
    using correction_table_shape by blast
  have cf: "correction_for ab = Inr [[c00, c01], [c10, c11]]"
    by (simp add: correction_for_table c)
  have "\<exists>st'. matmul (np_kron (np_kron I I) [[c00, c01], [c10, c11]]) st = Inr st' \<and>
            fst (bob_correction s) = s\<lparr>state := Some st'\<rparr> \<and>
            flatten st' = on_third_qubit [[c00, c01], [c10, c11]] (flatten st)"
    using tq
  proof (cases rule: three_qubit_cases)
    case (Vec a0 a1 a2 a3 a4 a5 a6 a7)
    from Vec st have "state s = Some (Vec [a0, a1, a2, a3, a4, a5, a6, a7])" by simp
    from bob_correction_Vec8 [OF this ar cf] apply_U_corr_Vec8 [of c00 c01 c10 c11 a0 a1 a2 a3 a4 a5 a6 a7]
    show ?thesis
      by (simp add: Vec bind_def on_third_qubit_8)
  next
    case (Mat a0 a1 a2 a3 a4 a5 a6 a7)
    from Mat st have "state s = Some (Mat [[a0], [a1], [a2], [a3], [a4], [a5], [a6], [a7]])" by simp
    from bob_correction_Mat8 [OF this ar cf] apply_U_corr_Mat8 [of c00 c01 c10 c11 a0 a1 a2 a3 a4 a5 a6 a7]
    show ?thesis
      by (simp add: Mat bind_def on_third_qubit_8)
  qed
  then show ?thesis
    by (simp add: correction_for_table Z_after_X c)
qed

text \<open>
  The theorem on the state collapsed to the outcome (1, 1) in the run on 0.6 and 0.8: the
  correction is the product of \<open>Z\<close> and \<open>X\<close>, and it acts on the last pair only.
\<close>

theorem bob_correction_table_witness:
  "three_qubit (Vec [0, 0, 0, 0, 0, 0, - (4 / 5), 3 / 5]) \<and>
   correction_for (1, 1) = Inr [[0, 1], [- 1, 0]] \<and>
   fst (bob_correction \<lparr>state = Some (Vec [0, 0, 0, 0, 0, 0, - (4 / 5), 3 / 5]),
                         psi = Some [[3 / 5], [4 / 5]], alice_result = Some (1, 1)\<rparr>) =
     \<lparr>state = Some (Vec [0, 0, 0, 0, 0, 0, 3 / 5, 4 / 5]),
      psi = Some [[3 / 5], [4 / 5]], alice_result = Some (1, 1)\<rparr>"
proof -
  let ?st = "Vec [0, 0, 0, 0, 0, 0, - (4 / 5), 3 / 5]"
  let ?s = "\<lparr>state = Some ?st, psi = Some [[3 / 5], [4 / 5]], alice_result = Some (1, 1)\<rparr>"
  have h1: "state ?s = Some ?st" by simp
  have h2: "three_qubit ?st" by simp
  have h3: "alice_result ?s = Some (1, 1)" by simp
  have t: "correction_table (1, 1) = [[0, 1], [- 1, 0]]"
    by (simp add: correction_table_def)
  from bob_correction_table [OF h1 h2 h3] obtain st' where
    "correction_for (1, 1) = Inr [[0, 1], [- 1, 0]]"
    "fst (bob_correction ?s) = ?s\<lparr>state := Some st'\<rparr>"
    "matmul (np_kron (np_kron I I) [[0, 1], [- 1, 0]]) ?st = Inr st'"
    unfolding t by blast
  then show ?thesis
    by (auto simp: U_corr_eq matmul_mv_def dot_def)
qed

lemma r2_not_minus_3: "r2 * (- 1 / 10) \<noteq> 3 / 10"
proof
  assume "r2 * (- 1 / 10) = 3 / 10"
  then have "- r2 = 3" by simp
  then have "- (- r2) = - 3" by (rule arg_cong)
  then have "r2 = - 3" by simp
  then have "r2 * r2 = (- 3) * (- 3)" by (simp only:)
  with r2_square show False by simp
qed

lemma alice_twice_explicit:
  "alice_ops \<lparr>state = Some (Mat [[3 / 10], [2 / 5], [2 / 5], [3 / 10],
                         [3 / 10], [- (2 / 5)], [- (2 / 5)], [3 / 10]]),
      psi = Some [[3 / 5], [4 / 5]], alice_result = None\<rparr> =
     (\<lparr>state = Some (Mat [[r2 * (- 1 / 10)], [r2 * (7 / 10)], [r2 * (7 / 10)], [r2 * (- 1 / 10)],
                          [r2 * (7 / 10)], [r2 * (1 / 10)], [r2 * (1 / 10)], [r2 * (7 / 10)]]),
       psi = Some [[3 / 5], [4 / 5]], alice_result = None\<rparr>,
      Inr AliceApplied)"
  by (subst alice_ops_Mat8 [of _ "3 / 10" "2 / 5" "2 / 5" "3 / 10" "3 / 10" "- (2 / 5)" "- (2 / 5)" "3 / 10"])
    simp_all

lemma alice_twice_example:
  "alice_ops (fst (alice_ops (fst (initialize (Some (3 / 5)) (Some (4 / 5)) start)))) =
     (\<lparr>state = Some (Mat [[r2 * (- 1 / 10)], [r2 * (7 / 10)], [r2 * (7 / 10)], [r2 * (- 1 / 10)],
                          [r2 * (7 / 10)], [r2 * (1 / 10)], [r2 * (1 / 10)], [r2 * (7 / 10)]]),
       psi = Some [[3 / 5], [4 / 5]], alice_result = None\<rparr>,
      Inr AliceApplied)"
  unfolding after_alice_example by (rule alice_twice_explicit)

lemma bob_twice_explicit:
  "bob_correction \<lparr>state = Some (Vec [0, 0, 3 / 5, 4 / 5, 0, 0, 0, 0]),
       psi = Some [[3 / 5], [4 / 5]], alice_result = Some (0, 1)\<rparr> =
     (\<lparr>state = Some (Vec [0, 0, 4 / 5, 3 / 5, 0, 0, 0, 0]),
       psi = Some [[3 / 5], [4 / 5]], alice_result = Some (0, 1)\<rparr>,
      Inr (BobFinal [[0], [0]] (Some [[3 / 5], [4 / 5]])))"
  using bob_correction_Vec8 [of "\<lparr>state = Some (Vec [0, 0, 3 / 5, 4 / 5, 0, 0, 0, 0]),
       psi = Some [[3 / 5], [4 / 5]], alice_result = Some (0, 1)\<rparr>"
       0 0 "3 / 5" "4 / 5" 0 0 0 0 "(0, 1)" 0 1 1 0] correction_for_outcomes(2)
  by (simp add: normalize_2d_zero_column)

lemma bob_twice_example:
  "bob_correction (fst (teleport (3 / 5) (4 / 5) (3 / 10))) =
     (\<lparr>state = Some (Vec [0, 0, 4 / 5, 3 / 5, 0, 0, 0, 0]),
       psi = Some [[3 / 5], [4 / 5]], alice_result = Some (0, 1)\<rparr>,
      Inr (BobFinal [[0], [0]] (Some [[3 / 5], [4 / 5]])))"
  unfolding teleport_01 fst_conv by (rule bob_twice_explicit)

lemma matmul_three_qubit:
  assumes "length U = 8" and "list_all (\<lambda>row. length row = 8) U" and "three_qubit st"
  shows "\<exists>st'. matmul U st = Inr st' \<and> three_qubit st'"
proof (cases st)
  case (Vec v)
  with assms(3) have "length v = 8" by simp
  with assms(1,2) Vec show ?thesis
    by (simp add: matmul_mv_def)
next
  case (Mat m)
  with assms(3) have m: "length m = 8" "list_all (\<lambda>r. length r = 1) m" by simp_all
  then obtain r rs where "m = r # rs" "length r = 1"
    by (cases m) auto
  then have "length (columns m) = 1"
    by (simp add: columns_def)
  with assms(1,2) m Mat show ?thesis
    by (simp add: matmul_mm_def list_all_iff)
qed

lemma operator_shapes:
  "length (np_kron CNOT I) = 8 \<and> list_all (\<lambda>row. length row = 8) (np_kron CNOT I)"
  "length (np_kron (np_kron H I) I) = 8 \<and>
     list_all (\<lambda>row. length row = 8) (np_kron (np_kron H I) I)"
  "length (np_kron (np_kron I I) (correction_table ab)) = 8 \<and>
     list_all (\<lambda>row. length row = 8) (np_kron (np_kron I I) (correction_table ab))"
proof -
  show "length (np_kron CNOT I) = 8 \<and> list_all (\<lambda>row. length row = 8) (np_kron CNOT I)"
    unfolding U_cnot_eq by simp
  show "length (np_kron (np_kron H I) I) = 8 \<and>
     list_all (\<lambda>row. length row = 8) (np_kron (np_kron H I) I)"
    unfolding U_h_eq by simp
  obtain c00 c01 c10 c11 where "correction_table ab = [[c00, c01], [c10, c11]]"
    using correction_table_shape by blast
  then show "length (np_kron (np_kron I I) (correction_table ab)) = 8 \<and>
     list_all (\<lambda>row. length row = 8) (np_kron (np_kron I I) (correction_table ab))"
    by (simp add: U_corr_eq)
qed

lemma alice_ops_applies:
  assumes "state s = Some st" and "three_qubit st"
  shows "\<exists>st1 st2. matmul (np_kron CNOT I) st = Inr st1 \<and>
           matmul (np_kron (np_kron H I) I) st1 = Inr st2 \<and> three_qubit st2 \<and>
           alice_ops s = (s\<lparr>state := Some st2\<rparr>, Inr AliceApplied)"
proof -
  from matmul_three_qubit [OF _ _ assms(2)] operator_shapes(1)
  obtain st1 where 1: "matmul (np_kron CNOT I) st = Inr st1" "three_qubit st1"
    by blast
  from matmul_three_qubit [OF _ _ 1(2)] operator_shapes(2)
  obtain st2 where 2: "matmul (np_kron (np_kron H I) I) st1 = Inr st2" "three_qubit st2"
    by blast
  from assms(1) 1(1) 2(1) have "alice_ops s = (s\<lparr>state := Some st2\<rparr>, Inr AliceApplied)"
    by (simp add: alice_ops_def bind_def)
  with 1 2 show ?thesis by blast
qed

lemma reshape_last_two: "three_qubit st \<Longrightarrow> \<exists>q. reshape_2_1 (last_two st) = Inr q"
  by (erule three_qubit_cases) (simp_all add: reshape_2_1_def)

lemma bob_correction_applies:
  assumes "state s = Some st" and "three_qubit st" and "alice_result s = Some ab"
  shows "\<exists>st' q. matmul (np_kron (np_kron I I) (correction_table ab)) st = Inr st' \<and>
           three_qubit st' \<and>
           bob_correction s = (s\<lparr>state := Some st'\<rparr>, Inr (BobFinal q (psi s)))"
proof -
  from matmul_three_qubit [OF _ _ assms(2)] operator_shapes(3) [of ab]
  obtain st' where 1: "matmul (np_kron (np_kron I I) (correction_table ab)) st = Inr st'"
    "three_qubit st'"
    by blast
  from reshape_last_two [OF 1(2)] obtain q where q: "reshape_2_1 (last_two st') = Inr q"
    by blast
  from assms(1,3) 1(1) q
  have "bob_correction s = (s\<lparr>state := Some st'\<rparr>, Inr (BobFinal (normalize_2d q) (psi s)))"
    by (simp add: bob_correction_def bind_def correction_for_table)
  with 1 show ?thesis by blast
qed

lemma reentry_example:
  "alice_ops (fst (alice_ops (fst (initialize (Some (3 / 5)) (Some (4 / 5)) start)))) =
     (\<lparr>state = Some (Mat [[r2 * (- 1 / 10)], [r2 * (7 / 10)], [r2 * (7 / 10)], [r2 * (- 1 / 10)],
                          [r2 * (7 / 10)], [r2 * (1 / 10)], [r2 * (1 / 10)], [r2 * (7 / 10)]]),
       psi = Some [[3 / 5], [4 / 5]], alice_result = None\<rparr>,
      Inr AliceApplied) \<and>
   state (fst (alice_ops (fst (alice_ops (fst (initialize (Some (3 / 5)) (Some (4 / 5)) start)))))) \<noteq>
   state (fst (alice_ops (fst (initialize (Some (3 / 5)) (Some (4 / 5)) start)))) \<and>
   bob_correction (fst (teleport (3 / 5) (4 / 5) (3 / 10))) =
     (\<lparr>state = Some (Vec [0, 0, 4 / 5, 3 / 5, 0, 0, 0, 0]),
       psi = Some [[3 / 5], [4 / 5]], alice_result = Some (0, 1)\<rparr>,
      Inr (BobFinal [[0], [0]] (Some [[3 / 5], [4 / 5]]))) \<and>
   state (fst (bob_correction (fst (teleport (3 / 5) (4 / 5) (3 / 10))))) \<noteq>
   state (fst (teleport (3 / 5) (4 / 5) (3 / 10)))"
proof -
  have "state (fst (alice_ops (fst (alice_ops (fst (initialize (Some (3 / 5)) (Some (4 / 5)) start)))))) \<noteq>
   state (fst (alice_ops (fst (initialize (Some (3 / 5)) (Some (4 / 5)) start))))"
    unfolding after_alice_example alice_twice_explicit using r2_not_minus_3 by simp
  moreover have "state (fst (bob_correction (fst (teleport (3 / 5) (4 / 5) (3 / 10))))) \<noteq>
   state (fst (teleport (3 / 5) (4 / 5) (3 / 10)))"
    unfolding teleport_01 fst_conv bob_twice_explicit by simp
  ultimately show ?thesis
    using alice_twice_example bob_twice_example by (intro conjI)
qed

lemma alice_ops_reentry:
  assumes "state s = Some st" and "three_qubit st"
  shows "\<exists>m1 st1 m2 st2.
           matmul (np_kron CNOT I) st = Inr m1 \<and>
           matmul (np_kron (np_kron H I) I) m1 = Inr st1 \<and>
           alice_ops s = (s\<lparr>state := Some st1\<rparr>, Inr AliceApplied) \<and>
           matmul (np_kron CNOT I) st1 = Inr m2 \<and>
           matmul (np_kron (np_kron H I) I) m2 = Inr st2 \<and>
           alice_ops (fst (alice_ops s)) = (s\<lparr>state := Some st2\<rparr>, Inr AliceApplied)"
proof -
  from alice_ops_applies [OF assms] obtain m1 st1 where
    1: "matmul (np_kron CNOT I) st = Inr m1" "matmul (np_kron (np_kron H I) I) m1 = Inr st1"
      "three_qubit st1" "alice_ops s = (s\<lparr>state := Some st1\<rparr>, Inr AliceApplied)"
    by blast
  have "state (s\<lparr>state := Some st1\<rparr>) = Some st1" by simp
  from alice_ops_applies [OF this 1(3)] obtain m2 st2 where
    2: "matmul (np_kron CNOT I) st1 = Inr m2" "matmul (np_kron (np_kron H I) I) m2 = Inr st2"
      "alice_ops (s\<lparr>state := Some st1\<rparr>) = (s\<lparr>state := Some st2\<rparr>, Inr AliceApplied)"
    by auto
  from 1(4) 2(3) have "alice_ops (fst (alice_ops s)) = (s\<lparr>state := Some st2\<rparr>, Inr AliceApplied)"
    by simp
  with 1 2 show ?thesis by blast
qed

lemma bob_correction_reentry:
  assumes "state s = Some st" and "three_qubit st" and "alice_result s = Some ab"
  shows "\<exists>st1 q1 st2 q2.
           matmul (np_kron (np_kron I I) (correction_table ab)) st = Inr st1 \<and>
           bob_correction s = (s\<lparr>state := Some st1\<rparr>, Inr (BobFinal q1 (psi s))) \<and>
           matmul (np_kron (np_kron I I) (correction_table ab)) st1 = Inr st2 \<and>
           bob_correction (fst (bob_correction s)) =
             (s\<lparr>state := Some st2\<rparr>, Inr (BobFinal q2 (psi s)))"
proof -
  from bob_correction_applies [OF assms] obtain st1 q1 where
    1: "matmul (np_kron (np_kron I I) (correction_table ab)) st = Inr st1" "three_qubit st1"
      "bob_correction s = (s\<lparr>state := Some st1\<rparr>, Inr (BobFinal q1 (psi s)))"
    by blast
  have "state (s\<lparr>state := Some st1\<rparr>) = Some st1"
    "alice_result (s\<lparr>state := Some st1\<rparr>) = Some ab"
    using assms(3) by simp_all
  from bob_correction_applies [OF this(1) 1(2) this(2)] obtain st2 q2 where
    2: "matmul (np_kron (np_kron I I) (correction_table ab)) st1 = Inr st2"
      "bob_correction (s\<lparr>state := Some st1\<rparr>) = (s\<lparr>state := Some st2\<rparr>, Inr (BobFinal q2 (psi s)))"
    by auto
  from 1(3) 2(2) have "bob_correction (fst (bob_correction s)) =
      (s\<lparr>state := Some st2\<rparr>, Inr (BobFinal q2 (psi s)))"
    by simp
  with 1 2 show ?thesis by blast
qed

text \<open>
  C9: a step pressed again passes its guard and applies its operators again. In every
  session with a state of three qubits (every session in which a step has run),
  whatever else it holds, \<open>alice_ops\<close> multiplies the state by \<open>kron(CNOT, I)\<close> and then by
  \<open>kron(H, I, I)\<close> and reports success, and pressed once more it multiplies the new state
  by the two operators again; with a recorded pair of bits, \<open>bob_correction\<close> multiplies
  the state by the correction operator, and pressed once more multiplies the new state by
  it again. The steps are not idempotent: after \<open>initialize\<close> on 0.6 and 0.8 and
  \<open>alice_ops\<close>, a second \<open>alice_ops\<close> leaves a composite state other than the one after the
  first, and after a whole run with the outcome (0, 1) a second \<open>bob_correction\<close> changes
  the state.
\<close>

theorem phase_reentry_not_idempotent:
  assumes "state s = Some st" and "three_qubit st"
  shows "(\<exists>m1 st1 m2 st2.
           matmul (np_kron CNOT I) st = Inr m1 \<and>
           matmul (np_kron (np_kron H I) I) m1 = Inr st1 \<and>
           alice_ops s = (s\<lparr>state := Some st1\<rparr>, Inr AliceApplied) \<and>
           matmul (np_kron CNOT I) st1 = Inr m2 \<and>
           matmul (np_kron (np_kron H I) I) m2 = Inr st2 \<and>
           alice_ops (fst (alice_ops s)) = (s\<lparr>state := Some st2\<rparr>, Inr AliceApplied)) \<and>
         (\<forall>ab. alice_result s = Some ab \<longrightarrow>
            (\<exists>st1 q1 st2 q2.
               matmul (np_kron (np_kron I I) (correction_table ab)) st = Inr st1 \<and>
               bob_correction s = (s\<lparr>state := Some st1\<rparr>, Inr (BobFinal q1 (psi s))) \<and>
               matmul (np_kron (np_kron I I) (correction_table ab)) st1 = Inr st2 \<and>
               bob_correction (fst (bob_correction s)) =
                 (s\<lparr>state := Some st2\<rparr>, Inr (BobFinal q2 (psi s))))) \<and>
         kron [CNOT, I] = Inr (np_kron CNOT I) \<and>
         kron [H, I, I] = Inr (np_kron (np_kron H I) I) \<and>
         state (fst (alice_ops (fst (alice_ops (fst (initialize (Some (3 / 5)) (Some (4 / 5)) start)))))) \<noteq>
         state (fst (alice_ops (fst (initialize (Some (3 / 5)) (Some (4 / 5)) start)))) \<and>
         state (fst (bob_correction (fst (teleport (3 / 5) (4 / 5) (3 / 10))))) \<noteq>
         state (fst (teleport (3 / 5) (4 / 5) (3 / 10)))"
proof -
  have k: "kron [CNOT, I] = Inr (np_kron CNOT I)" "kron [H, I, I] = Inr (np_kron (np_kron H I) I)"
    by simp_all
  from alice_ops_reentry [OF assms] bob_correction_reentry [OF assms] k reentry_example
  show ?thesis by blast
qed

text \<open>
  The theorem on the session after \<open>initialize\<close> on 0.6 and 0.8: \<open>alice_ops\<close> succeeds on
  it, and succeeds again on the session it leaves.
\<close>

theorem phase_reentry_not_idempotent_witness:
  "state (fst (initialize (Some (3 / 5)) (Some (4 / 5)) start)) =
     Some (Mat [[3 / 5 * r2], [0], [0], [3 / 5 * r2], [4 / 5 * r2], [0], [0], [4 / 5 * r2]]) \<and>
   three_qubit (Mat [[3 / 5 * r2], [0], [0], [3 / 5 * r2], [4 / 5 * r2], [0], [0], [4 / 5 * r2]]) \<and>
   snd (alice_ops (fst (initialize (Some (3 / 5)) (Some (4 / 5)) start))) = Inr AliceApplied \<and>
   snd (alice_ops (fst (alice_ops (fst (initialize (Some (3 / 5)) (Some (4 / 5)) start))))) =
     Inr AliceApplied"
proof -
  let ?s = "fst (initialize (Some (3 / 5)) (Some (4 / 5)) start)"
  let ?st = "Mat [[3 / 5 * r2], [0], [0], [3 / 5 * r2], [4 / 5 * r2], [0], [0], [4 / 5 * r2]]"
  have h1: "state ?s = Some ?st"
    by (simp add: initialize_example)
  have h2: "three_qubit ?st" by simp
  from phase_reentry_not_idempotent [OF h1 h2] obtain st1 st2 where
    "alice_ops ?s = (?s\<lparr>state := Some st1\<rparr>, Inr AliceApplied)"
    "alice_ops (fst (alice_ops ?s)) = (?s\<lparr>state := Some st2\<rparr>, Inr AliceApplied)"
    by blast
  then have "snd (alice_ops ?s) = Inr AliceApplied"
    "snd (alice_ops (fst (alice_ops ?s))) = Inr AliceApplied"
    by simp_all
  with h1 h2 show ?thesis by blast
qed

text \<open>
  C3: \<open>measure\<close> pressed right after \<open>initialize\<close>, before \<open>alice_ops\<close>. Its guard asks only
  whether a state exists (its notice reads: Initialize and run Alice's operations first),
  so the measurement runs: on 0.6 and 0.8 with the sample 0.1 it draws (0, 0), replaces
  the composite state by the collapsed one and records the outcome.
\<close>

theorem measure_before_alice_ops_collapses:
  "measure_step (1 / 10) (fst (initialize (Some (3 / 5)) (Some (4 / 5)) start)) =
     (\<lparr>state = Some (Vec [1, 0, 0, 0, 0, 0, 0, 0]),
       psi = Some [[3 / 5], [4 / 5]], alice_result = Some (0, 0)\<rparr>,
      Inr (MeasureResult (0, 0))) \<and>
   fst (initialize (Some (3 / 5)) (Some (4 / 5)) start) =
     \<lparr>state = Some (Mat [[3 / 5 * r2], [0], [0], [3 / 5 * r2],
                         [4 / 5 * r2], [0], [0], [4 / 5 * r2]]),
      psi = Some [[3 / 5], [4 / 5]], alice_result = None\<rparr>"
  using measure_initialized_example by (simp add: initialize_example start_def)

text \<open>
  C2: \<open>initialize\<close> assigns \<open>psi\<close> and \<open>state\<close> and leaves \<open>alice_result\<close> as it is. After a
  whole run on 0.6 and 0.8 with the outcome (0, 1) and a second \<open>initialize\<close>, the session
  still holds (0, 1), and \<open>bob_correction\<close> pressed before \<open>measure\<close> passes its guard and
  applies \<open>X\<close> to the fresh state instead of showing its notice.
\<close>

theorem reinitialize_keeps_measurement:
  "alice_result (fst (initialize (Some (3 / 5)) (Some (4 / 5))
      (fst (teleport (3 / 5) (4 / 5) (3 / 10))))) = Some (0, 1) \<and>
   bob_correction
     (fst (initialize (Some (3 / 5)) (Some (4 / 5)) (fst (teleport (3 / 5) (4 / 5) (3 / 10))))) =
   (\<lparr>state = Some (Mat [[0], [3 / 5 * r2], [3 / 5 * r2], [0], [0], [4 / 5 * r2], [4 / 5 * r2], [0]]),
     psi = Some [[3 / 5], [4 / 5]], alice_result = Some (0, 1)\<rparr>,
    Inr (BobFinal [[1], [0]] (Some [[3 / 5], [4 / 5]])))"
  using bob_after_reinitialize by (simp add: teleport_01 initialize_example)

end
